theory Spec2Isabelle
  imports Main "HOL-Library.Sublist"
begin

section \<open>Strings\<close>

text \<open>
  Python strings are modelled as \<^typ>\<open>string\<close>, one \<^typ>\<open>char\<close> per code point, so the
  model covers the code points below 256. On these, \<^verbatim>\<open>str.lower()\<close> adds 32 to the
  letters \<^verbatim>\<open>A-Z\<close> and to the Latin-1 capitals (192 to 222, the multiplication sign 215
  excepted) and leaves every other character alone.
\<close>

definition lower_char :: "char \<Rightarrow> char" where
  "lower_char c =
     (let n = (of_char c :: nat)
      in if (65 \<le> n \<and> n \<le> 90) \<or> (192 \<le> n \<and> n \<le> 214) \<or> (216 \<le> n \<and> n \<le> 222)
         then char_of (n + 32) else c)"

definition lower :: "string \<Rightarrow> string" where
  "lower s = map lower_char s"

text \<open>\<^verbatim>\<open>s.startswith(k)\<close>, and the substring test \<^verbatim>\<open>k in s\<close>.\<close>

fun starts_with :: "string \<Rightarrow> string \<Rightarrow> bool" where
  "starts_with s [] = True"
| "starts_with [] (k # ks) = False"
| "starts_with (c # cs) (k # ks) = (c = k \<and> starts_with cs ks)"

fun str_in :: "string \<Rightarrow> string \<Rightarrow> bool" where
  "str_in k [] = (k = [])"
| "str_in k (c # cs) = (starts_with (c # cs) k \<or> str_in k cs)"


section \<open>Data models\<close>

text \<open>
  The four pydantic models. The field \<^verbatim>\<open>context\<close> of \<^verbatim>\<open>ResearchPlan\<close> is written
  \<open>context'\<close>. The \<^verbatim>\<open>Field\<close> descriptions ("3-4 distinct research angles") are
  documentation for the language model only: pydantic validates the types, not the
  number of angles, so \<open>angles\<close> is any list of strings.
\<close>

record ResearchPlan =
  is_ticker :: bool
  topic :: string
  context' :: string
  angles :: "string list"

record ResearchResult =
  title :: string
  url :: string
  snippet :: string
  content :: "string option"

record AngleData =
  angle :: string
  key_facts :: "string list"
  claims :: "string list"
  citations :: "string list"

record FinalReport =
  markdown_content :: string


section \<open>The SWOT rule\<close>

text \<open>The tuple \<^verbatim>\<open>keywords\<close> of the source, written \<open>keywords'\<close>.\<close>

definition keywords' :: "string list" where
  "keywords' = [''company'', ''stock'', ''equity'', ''market cap'', ''earnings'', ''investor'']"

text \<open>\<^verbatim>\<open>f"{plan.topic} {plan.context}".lower()\<close>\<close>

definition combined :: "ResearchPlan \<Rightarrow> string" where
  "combined plan = lower (topic plan @ '' '' @ context' plan)"

text \<open>The value of the local variable \<^verbatim>\<open>needs_swot\<close> when the first \<^verbatim>\<open>return\<close> is reached.\<close>

definition needs_swot :: "ResearchPlan \<Rightarrow> bool" where
  "needs_swot plan =
     (if is_ticker plan then True
      else list_ex (\<lambda>k. str_in k (combined plan)) keywords')"

text \<open>\<^verbatim>\<open>"swot" in angle.lower()\<close>\<close>

definition mentions_swot :: "string \<Rightarrow> bool" where
  "mentions_swot a = str_in ''swot'' (lower a)"

text \<open>
  The function mutates the plan in place and returns nothing; the model returns the
  plan after the call. \<^verbatim>\<open>plan.angles[-1] = ...\<close> is only reached with at least four
  angles, so the index \<open>length - 1\<close> is in range.
\<close>

definition ensure_swot_angle_if_applicable :: "ResearchPlan \<Rightarrow> ResearchPlan" where
  "ensure_swot_angle_if_applicable plan =
     (if \<not> needs_swot plan then plan
      else if \<not> list_ex mentions_swot (angles plan) then
        (if length (angles plan) \<ge> 4
         then plan\<lparr>angles := (angles plan)[length (angles plan) - 1 := ''SWOT analysis'']\<rparr>
         else plan\<lparr>angles := angles plan @ [''SWOT analysis'']\<rparr>)
      else plan)"


section \<open>Exceptions, external collaborators and the calls made to them\<close>

text \<open>
  An exception is modelled by the text \<^verbatim>\<open>str(e)\<close>, which is all the source ever reads of
  one. A computation that may raise returns \<open>exn + 'a\<close>, with \<open>Inl\<close> for a raised
  exception. Only subclasses of \<^verbatim>\<open>Exception\<close> are modelled: that is what the
  \<^verbatim>\<open>except Exception\<close> clauses of the source catch.
\<close>

datatype exn = Exception (message: string)

text \<open>
  A raw hit of the search provider is a dictionary. A value that is not a string makes
  the constructor of \<^verbatim>\<open>ResearchResult\<close> raise a validation error.
\<close>

datatype raw_value = Str string | NotStr

type_synonym raw_hit = "string \<rightharpoonup> raw_value"

text \<open>The response of \<^verbatim>\<open>client.get\<close>; the attribute \<^verbatim>\<open>text\<close> is written \<open>text'\<close>.\<close>

record http_response =
  status_code :: nat
  text' :: string

text \<open>
  The services the program talks to are parameters of the model, each a function of the
  arguments of the call:
  \<^item> \<open>planning_agent\<close>, \<open>extraction_agent\<close>, \<open>synthesis_agent\<close>: \<^verbatim>\<open>agent.run(prompt)\<close>
    followed by \<^verbatim>\<open>get_agent_output\<close>, either of which may raise;
  \<^item> \<open>ddgs_text\<close>: \<^verbatim>\<open>list(ddgs.text(query, max_results=max_results))\<close> in a worker thread;
  \<^item> \<open>client_get\<close>: \<^verbatim>\<open>client.get(url)\<close> with redirects followed and a timeout of ten
    seconds, a timeout being one of the exceptions it raises;
  \<^item> \<open>soup_text\<close>: parsing \<^verbatim>\<open>response.text\<close> with BeautifulSoup, removing the
    script, style, nav, footer and header elements, and \<^verbatim>\<open>get_text\<close>.
\<close>

record env =
  planning_agent :: "string \<Rightarrow> exn + ResearchPlan"
  ddgs_text :: "string \<Rightarrow> nat \<Rightarrow> exn + raw_hit list"
  client_get :: "string \<Rightarrow> exn + http_response"
  soup_text :: "string \<Rightarrow> exn + string"
  extraction_agent :: "string \<Rightarrow> exn + AngleData"
  synthesis_agent :: "string \<Rightarrow> exn + FinalReport"

text \<open>
  Every function that talks to a service returns, next to its result, the calls it has
  made. Calls of tasks that run concurrently are listed task after task; their real
  interleaving is not modelled. Output to the console and the progress callback are
  left out.
\<close>

datatype call =
    Planning string
  | Search string nat
  | HttpGet string
  | Extraction string
  | Synthesis string

text \<open>
  \<^verbatim>\<open>await asyncio.gather(*tasks)\<close>: every task runs to its end, the results come in the
  order of the tasks, and an exception raised by a task is raised to the awaiter.
\<close>

fun collect :: "(exn + 'a) list \<Rightarrow> exn + 'a list" where
  "collect [] = Inr []"
| "collect (Inl e # ts) = Inl e"
| "collect (Inr v # ts) = (case collect ts of Inl e \<Rightarrow> Inl e | Inr vs \<Rightarrow> Inr (v # vs))"

definition gather :: "((exn + 'a) \<times> call list) list \<Rightarrow> (exn + 'a list) \<times> call list" where
  "gather tasks = (collect (map fst tasks), concat (map snd tasks))"


section \<open>Tools\<close>

text \<open>\<^verbatim>\<open>r.get(key, '')\<close>\<close>

definition get_or_empty :: "raw_hit \<Rightarrow> string \<Rightarrow> raw_value" where
  "get_or_empty r k = (case r k of None \<Rightarrow> Str [] | Some v \<Rightarrow> v)"

text \<open>
  \<^verbatim>\<open>ResearchResult(title=..., url=..., snippet=...)\<close>: \<open>None\<close> when validation raises;
  \<open>content\<close> takes its default.
\<close>

definition make_result :: "raw_hit \<Rightarrow> ResearchResult option" where
  "make_result r =
     (case (get_or_empty r ''title'', get_or_empty r ''href'', get_or_empty r ''body'') of
        (Str t, Str u, Str s) \<Rightarrow> Some \<lparr>title = t, url = u, snippet = s, content = None\<rparr>
      | _ \<Rightarrow> None)"

text \<open>
  The loop over \<^verbatim>\<open>search_results\<close>. It runs inside the \<^verbatim>\<open>try\<close>: a validation error ends
  it, and the results appended so far stay in \<^verbatim>\<open>results\<close>.
\<close>

fun convert_hits :: "raw_hit list \<Rightarrow> ResearchResult list \<Rightarrow> ResearchResult list" where
  "convert_hits [] results = results"
| "convert_hits (r # rs) results =
     (case make_result r of
        None \<Rightarrow> results
      | Some x \<Rightarrow> convert_hits rs (results @ [x]))"

definition search_duckduckgo ::
  "env \<Rightarrow> string \<Rightarrow> nat \<Rightarrow> (exn + ResearchResult list) \<times> call list" where
  "search_duckduckgo env query max_results =
     (let results = [] in
      case ddgs_text env query max_results of
        Inl e \<Rightarrow> (Inr results, [Search query max_results])
      | Inr search_results \<Rightarrow>
          (Inr (convert_hits search_results results), [Search query max_results]))"

text \<open>
  \<^verbatim>\<open>response.raise_for_status()\<close> of the HTTP library raises unless the status is 2xx.
\<close>

definition is_success :: "http_response \<Rightarrow> bool" where
  "is_success response = (200 \<le> status_code response \<and> status_code response \<le> 299)"

text \<open>
  The whole body is inside the \<^verbatim>\<open>try\<close>, and the handler returns \<^verbatim>\<open>None\<close> whatever
  the exception is.
\<close>

definition fetch_page_content :: "env \<Rightarrow> string \<Rightarrow> (exn + string option) \<times> call list" where
  "fetch_page_content env u =
     (case client_get env u of
        Inl e \<Rightarrow> (Inr None, [HttpGet u])
      | Inr response \<Rightarrow>
          if \<not> is_success response then (Inr None, [HttpGet u])
          else (case soup_text env (text' response) of
                  Inl e \<Rightarrow> (Inr None, [HttpGet u])
                | Inr text \<Rightarrow> (Inr (Some (take 10000 text)), [HttpGet u])))"


section \<open>Orchestration\<close>

text \<open>The test \<^verbatim>\<open>if content:\<close> on an optional string: neither \<^verbatim>\<open>None\<close> nor empty.\<close>

definition truthy :: "string option \<Rightarrow> bool" where
  "truthy c = (case c of None \<Rightarrow> False | Some s \<Rightarrow> s \<noteq> [])"

text \<open>
  \<^verbatim>\<open>for i, content in enumerate(contents): if content: results[i].content = content\<close>.
  An index outside the list raises \<^verbatim>\<open>IndexError\<close>.
\<close>

fun attach_contents ::
  "nat \<Rightarrow> string option list \<Rightarrow> ResearchResult list \<Rightarrow> exn + ResearchResult list" where
  "attach_contents i [] results = Inr results"
| "attach_contents i (c # cs) results =
     (if truthy c then
        (if i < length results
         then attach_contents (Suc i) cs (results[i := (results ! i)\<lparr>content := c\<rparr>])
         else Inl (Exception ''list index out of range''))
      else attach_contents (Suc i) cs results)"

text \<open>Lines 224 to 230 of \<^verbatim>\<open>process_angle\<close>: fetch the top pages and attach their text.\<close>

definition fetch_top_pages ::
  "env \<Rightarrow> ResearchResult list \<Rightarrow> (exn + ResearchResult list) \<times> call list" where
  "fetch_top_pages env results =
     (let fetch_tasks = map (\<lambda>r. fetch_page_content env (url r)) (take 2 results) in
      case gather fetch_tasks of
        (Inl e, calls) \<Rightarrow> (Inl e, calls)
      | (Inr contents, calls) \<Rightarrow> (attach_contents 0 contents results, calls))"

definition nl :: string where
  "nl = [CHR 0x0A]"

text \<open>Lines 233 to 239: the prompt of the extraction.\<close>

definition result_lines :: "ResearchResult \<Rightarrow> string" where
  "result_lines r =
     ''- Title: '' @ title r @ nl @ ''  URL: '' @ url r @ nl @ ''  Snippet: '' @ snippet r @ nl
     @ (case content r of
          None \<Rightarrow> []
        | Some s \<Rightarrow> if s \<noteq> [] then ''  Content: '' @ take 2000 s @ ''...'' @ nl else [])
     @ nl"

definition build_angle_prompt :: "ResearchPlan \<Rightarrow> string \<Rightarrow> ResearchResult list \<Rightarrow> string" where
  "build_angle_prompt plan a results =
     foldl (\<lambda>angle_prompt r. angle_prompt @ result_lines r)
       (''Topic: '' @ topic plan @ nl @ ''Angle: '' @ a @ nl @ nl @ ''Search Results:'' @ nl)
       results"

definition process_angle :: "env \<Rightarrow> ResearchPlan \<Rightarrow> string \<Rightarrow> (exn + AngleData) \<times> call list" where
  "process_angle env plan a =
     (let query = topic plan @ '' '' @ a in
      case search_duckduckgo env query 5 of
        (Inl e, c1) \<Rightarrow> (Inl e, c1)
      | (Inr results, c1) \<Rightarrow>
          (case fetch_top_pages env results of
             (Inl e, c2) \<Rightarrow> (Inl e, c1 @ c2)
           | (Inr results', c2) \<Rightarrow>
               (let angle_prompt = build_angle_prompt plan a results' in
                case extraction_agent env angle_prompt of
                  Inl e \<Rightarrow>
                    (Inr \<lparr>angle = a, key_facts = [], claims = [], citations = []\<rparr>,
                     c1 @ c2 @ [Extraction angle_prompt])
                | Inr d \<Rightarrow> (Inr d, c1 @ c2 @ [Extraction angle_prompt]))))"

text \<open>\<^verbatim>\<open>sep.join(xs)\<close>\<close>

fun join :: "string \<Rightarrow> string list \<Rightarrow> string" where
  "join sep [] = []"
| "join sep [x] = x"
| "join sep (x # y # ys) = x @ sep @ join sep (y # ys)"

definition bullets :: "string list \<Rightarrow> string" where
  "bullets xs = join nl (map (\<lambda>f. ''- '' @ f) xs)"

text \<open>Lines 258 to 263: the prompt of the synthesis.\<close>

definition data_lines :: "AngleData \<Rightarrow> string" where
  "data_lines d =
     nl @ ''Angle: '' @ angle d @ nl
     @ ''Facts:'' @ nl @ bullets (key_facts d) @ nl
     @ ''Claims:'' @ nl @ bullets (claims d) @ nl
     @ ''Citations:'' @ nl @ bullets (citations d) @ nl"

definition build_report_prompt :: "ResearchPlan \<Rightarrow> AngleData list \<Rightarrow> string" where
  "build_report_prompt plan angle_data_list =
     foldl (\<lambda>report_prompt d. report_prompt @ data_lines d)
       (''Topic: '' @ topic plan @ nl @ ''Context: '' @ context' plan @ nl @ nl
        @ ''Collected Data:'' @ nl)
       angle_data_list"

definition deep_research :: "env \<Rightarrow> string \<Rightarrow> (exn + string) \<times> call list" where
  "deep_research env user_input =
     (case planning_agent env user_input of
        Inl e \<Rightarrow> (Inr (''Error generating plan: '' @ message e), [Planning user_input])
      | Inr plan0 \<Rightarrow>
          (let plan = ensure_swot_angle_if_applicable plan0;
               angle_tasks = map (process_angle env plan) (angles plan) in
           case gather angle_tasks of
             (Inl e, c1) \<Rightarrow> (Inl e, Planning user_input # c1)
           | (Inr angle_data_list, c1) \<Rightarrow>
               (let report_prompt = build_report_prompt plan angle_data_list in
                case synthesis_agent env report_prompt of
                  Inl e \<Rightarrow>
                    (Inr (''Error synthesizing report: '' @ message e),
                     Planning user_input # c1 @ [Synthesis report_prompt])
                | Inr final_report_obj \<Rightarrow>
                    (Inr (markdown_content final_report_obj),
                     Planning user_input # c1 @ [Synthesis report_prompt]))))"

text \<open>Whether a logged call is a call of the extraction agent.\<close>

fun is_extraction :: "call \<Rightarrow> bool" where
  "is_extraction (Extraction p) = True"
| "is_extraction c = False"


section \<open>Sample inputs\<close>

text \<open>Plans and collaborators on which the theorems below are exercised.\<close>

definition tesla_plan :: ResearchPlan where
  "tesla_plan = \<lparr>is_ticker = True, topic = ''Tesla'', context' = ''electric vehicles'',
      angles = [''recent performance'', ''market positioning'', ''guidance'']\<rparr>"

definition volkswagen_plan :: ResearchPlan where
  "volkswagen_plan = \<lparr>is_ticker = False, topic = ''Volkswagen'', context' = ''Automotive company'',
      angles = [''recent performance'', ''market positioning'', ''guidance'']\<rparr>"

definition full_plan :: ResearchPlan where
  "full_plan = \<lparr>is_ticker = True, topic = ''Tesla'', context' = ''electric vehicles'',
      angles = [''recent performance'', ''market positioning'', ''guidance'', ''valuation'']\<rparr>"

definition crowded_plan :: ResearchPlan where
  "crowded_plan = \<lparr>is_ticker = True, topic = ''Tesla'', context' = ''electric vehicles'',
      angles = [''SWOT analysis'', ''recent performance'', ''market positioning'', ''guidance'',
                ''SWOT of competitors'']\<rparr>"

definition quantum_plan :: ResearchPlan where
  "quantum_plan = \<lparr>is_ticker = False, topic = ''Quantum computing'', context' = ''technology'',
      angles = [''hardware'', ''algorithms'', ''funding'']\<rparr>"

definition sample_hits :: "raw_hit list" where
  "sample_hits =
     [ [''title'' \<mapsto> Str ''Tesla Q3'', ''href'' \<mapsto> Str ''https://a.example'',
       ''body'' \<mapsto> Str ''Deliveries up''],
      [''title'' \<mapsto> Str ''Tesla outlook'', ''href'' \<mapsto> Str ''https://b.example'',
       ''body'' \<mapsto> Str ''Margins''],
      [''title'' \<mapsto> Str ''Tesla rivals'', ''href'' \<mapsto> Str ''https://c.example'',
       ''body'' \<mapsto> Str ''Competition''] ]"

definition sample_results :: "ResearchResult list" where
  "sample_results =
     [\<lparr>title = ''Tesla Q3'', url = ''https://a.example'', snippet = ''Deliveries up'', content = None\<rparr>,
      \<lparr>title = ''Tesla outlook'', url = ''https://b.example'', snippet = ''Margins'', content = None\<rparr>,
      \<lparr>title = ''Tesla rivals'', url = ''https://c.example'', snippet = ''Competition'', content = None\<rparr>]"

definition demo_env :: env where
  "demo_env = \<lparr>
     planning_agent =
       (\<lambda>s. if s = ''TSLA'' then Inr tesla_plan else Inl (Exception ''boom'')),
     ddgs_text =
       (\<lambda>q m. if q = ''Tesla guidance'' then Inl (Exception ''rate limited'')
              else Inr sample_hits),
     client_get =
       (\<lambda>u. if u = ''https://a.example'' then Inr \<lparr>status_code = 200, text' = ''<p>ok</p>''\<rparr>
            else if u = ''https://b.example'' then Inr \<lparr>status_code = 404, text' = ''gone''\<rparr>
            else if u = ''https://c.example'' then Inr \<lparr>status_code = 200, text' = ''<p''\<rparr>
            else Inl (Exception ''timed out'')),
     soup_text =
       (\<lambda>h. if h = ''<p>ok</p>'' then Inr ''ok'' else Inl (Exception ''parse error'')),
     extraction_agent =
       (\<lambda>p. if str_in ''Angle: SWOT analysis'' p then Inl (Exception ''model refused'')
            else Inr \<lparr>angle = ''found'', key_facts = [''fact''], claims = [],
                       citations = [''https://a.example'']\<rparr>),
     synthesis_agent = (\<lambda>p. Inr \<lparr>markdown_content = ''# Report''\<rparr>)\<rparr>"

text \<open>Collaborators that serve a page of 12000 characters.\<close>

definition long_page_env :: env where
  "long_page_env = demo_env\<lparr>
     client_get := (\<lambda>u. Inr \<lparr>status_code = 200, text' = ''<p>long</p>''\<rparr>),
     soup_text := (\<lambda>h. Inr (replicate 12000 CHR ''a''))\<rparr>"

definition quota_env :: env where
  "quota_env = demo_env\<lparr>synthesis_agent := (\<lambda>p. Inl (Exception ''quota exceeded''))\<rparr>"


section \<open>Facts about strings\<close>

lemma lower_swot_analysis: "lower ''SWOT analysis'' = ''swot analysis''"
  by code_simp

lemma mentions_swot_literal: "mentions_swot ''SWOT analysis''"
  by (simp add: mentions_swot_def lower_swot_analysis)

lemma starts_with_prefix: "starts_with s k \<longleftrightarrow> prefix k s"
  by (induction s k rule: starts_with.induct) auto

text \<open>\<open>str_in\<close> is the substring relation.\<close>

lemma str_in_sublist: "str_in k s \<longleftrightarrow> sublist k s"
  by (induction s) (auto simp: starts_with_prefix sublist_Cons_right)

lemma str_in_iff: "str_in k s \<longleftrightarrow> (\<exists>p q. s = p @ k @ q)"
  by (simp add: str_in_sublist sublist_def)


section \<open>The SWOT rule: what one application does\<close>

lemma filter_none: "\<not> list_ex P xs \<Longrightarrow> filter P xs = []"
  by (induction xs) auto

lemma filter_butlast_absent: "\<not> list_ex P xs \<Longrightarrow> filter P (butlast xs) = []"
  by (induction xs) auto

lemma ensure_angles_absent_short:
  "needs_swot p \<Longrightarrow> \<not> list_ex mentions_swot (angles p) \<Longrightarrow> length (angles p) < 4 \<Longrightarrow>
   angles (ensure_swot_angle_if_applicable p) = angles p @ [''SWOT analysis'']"
  by (simp add: ensure_swot_angle_if_applicable_def)

lemma ensure_angles_absent_full:
  "needs_swot p \<Longrightarrow> \<not> list_ex mentions_swot (angles p) \<Longrightarrow> 4 \<le> length (angles p) \<Longrightarrow>
   angles (ensure_swot_angle_if_applicable p) = butlast (angles p) @ [''SWOT analysis'']"
  by (cases "angles p" rule: rev_cases) (auto simp: ensure_swot_angle_if_applicable_def)

lemma ensure_present:
  "list_ex mentions_swot (angles p) \<Longrightarrow> ensure_swot_angle_if_applicable p = p"
  by (simp add: ensure_swot_angle_if_applicable_def)

lemma ensure_not_needed:
  "\<not> needs_swot p \<Longrightarrow> ensure_swot_angle_if_applicable p = p"
  by (simp add: ensure_swot_angle_if_applicable_def)

lemma ensure_has_swot:
  "needs_swot p \<Longrightarrow> list_ex mentions_swot (angles (ensure_swot_angle_if_applicable p))"
proof (cases "list_ex mentions_swot (angles p)")
  case True
  then show ?thesis by (simp add: ensure_present)
next
  case False
  assume n: "needs_swot p"
  show ?thesis
  proof (cases "4 \<le> length (angles p)")
    case True
    with n False show ?thesis
      by (simp add: ensure_angles_absent_full mentions_swot_literal)
  next
    case short: False
    with n False show ?thesis
      by (simp add: ensure_angles_absent_short mentions_swot_literal)
  qed
qed

lemma needs_swot_iff:
  "needs_swot p \<longleftrightarrow>
     is_ticker p \<or> list_ex (\<lambda>k. str_in k (lower (topic p @ '' '' @ context' p))) keywords'"
  by (simp add: needs_swot_def combined_def)

section \<open>Facts about the tools and the orchestration\<close>

lemma search_total:
  "\<exists>rs. search_duckduckgo env q m = (Inr rs, [Search q m])"
  by (simp add: search_duckduckgo_def split: sum.splits)

lemma fetch_total: "\<exists>r. fetch_page_content env u = (Inr r, [HttpGet u])"
  by (simp add: fetch_page_content_def split: sum.splits)

lemma collect_Inr: "collect (map Inr xs) = Inr xs"
  by (induction xs) auto

lemma collect_all_Inr: "\<forall>t\<in>set ts. \<exists>v. t = Inr v \<Longrightarrow> \<exists>vs. collect ts = Inr vs \<and> ts = map Inr vs"
proof (induction ts)
  case Nil then show ?case by simp
next
  case (Cons t ts)
  then obtain v where "t = Inr v" by auto
  moreover from Cons obtain vs where "collect ts = Inr vs" "ts = map Inr vs" by auto
  ultimately show ?case by auto
qed

lemma attach_contents_ok:
  "i + length cs \<le> length rs \<Longrightarrow>
   \<exists>rs'. attach_contents i cs rs = Inr rs' \<and> length rs' = length rs
     \<and> (\<forall>j<length rs. rs' ! j =
          (if i \<le> j \<and> j < i + length cs \<and> truthy (cs ! (j - i))
           then (rs ! j)\<lparr>content := cs ! (j - i)\<rparr> else rs ! j))"
proof (induction i cs rs rule: attach_contents.induct)
  case (1 i results)
  then show ?case by auto
next
  case (2 i c cs results)
  show ?case
  proof (cases "truthy c")
    case True
    let ?r = "results[i := (results ! i)\<lparr>content := c\<rparr>]"
    from 2(3) have i: "i < length results" by simp
    from 2(3) have "Suc i + length cs \<le> length ?r" by simp
    from 2(1)[OF True i this] obtain rs' where
      a: "attach_contents (Suc i) cs ?r = Inr rs'" and l: "length rs' = length ?r"
      and v: "\<forall>j<length ?r. rs' ! j = (if Suc i \<le> j \<and> j < Suc i + length cs \<and> truthy (cs ! (j - Suc i))
           then (?r ! j)\<lparr>content := cs ! (j - Suc i)\<rparr> else ?r ! j)" by blast
    have "\<forall>j<length results. rs' ! j =
          (if i \<le> j \<and> j < i + length (c # cs) \<and> truthy ((c # cs) ! (j - i))
           then (results ! j)\<lparr>content := (c # cs) ! (j - i)\<rparr> else results ! j)"
    proof (intro allI impI)
      fix j assume j: "j < length results"
      show "rs' ! j =
          (if i \<le> j \<and> j < i + length (c # cs) \<and> truthy ((c # cs) ! (j - i))
           then (results ! j)\<lparr>content := (c # cs) ! (j - i)\<rparr> else results ! j)"
      proof (cases "j = i")
        case True
        then show ?thesis using v j \<open>truthy c\<close> by simp
      next
        case False
        then show ?thesis using v j by (auto simp: nth_Cons' Suc_diff_le)
      qed
    qed
    then show ?thesis using a l True i by simp
  next
    case False
    from 2(3) have "Suc i + length cs \<le> length results" by simp
    from 2(2)[OF False this] obtain rs' where
      a: "attach_contents (Suc i) cs results = Inr rs'" and l: "length rs' = length results"
      and v: "\<forall>j<length results. rs' ! j = (if Suc i \<le> j \<and> j < Suc i + length cs \<and> truthy (cs ! (j - Suc i))
           then (results ! j)\<lparr>content := cs ! (j - Suc i)\<rparr> else results ! j)" by blast
    have "\<forall>j<length results. rs' ! j =
          (if i \<le> j \<and> j < i + length (c # cs) \<and> truthy ((c # cs) ! (j - i))
           then (results ! j)\<lparr>content := (c # cs) ! (j - i)\<rparr> else results ! j)"
    proof (intro allI impI)
      fix j assume j: "j < length results"
      show "rs' ! j =
          (if i \<le> j \<and> j < i + length (c # cs) \<and> truthy ((c # cs) ! (j - i))
           then (results ! j)\<lparr>content := (c # cs) ! (j - i)\<rparr> else results ! j)"
      proof (cases "j = i")
        case True
        then show ?thesis using v j False by simp
      next
        case False
        then show ?thesis using v j by (auto simp: nth_Cons' Suc_diff_le)
      qed
    qed
    then show ?thesis using a l False by simp
  qed
qed



lemma gather_fetch:
  "\<exists>cs. gather (map (\<lambda>r. fetch_page_content env (url r)) rs)
          = (Inr cs, map (\<lambda>r. HttpGet (url r)) rs)
      \<and> length cs = length rs
      \<and> (\<forall>i<length rs. fst (fetch_page_content env (url (rs ! i))) = Inr (cs ! i))"
proof (induction rs)
  case Nil
  then show ?case by (simp add: gather_def)
next
  case (Cons r rs)
  then obtain cs where g: "gather (map (\<lambda>r. fetch_page_content env (url r)) rs)
          = (Inr cs, map (\<lambda>r. HttpGet (url r)) rs)"
    and l: "length cs = length rs"
    and v: "\<forall>i<length rs. fst (fetch_page_content env (url (rs ! i))) = Inr (cs ! i)" by blast
  from fetch_total obtain c where c: "fetch_page_content env (url r) = (Inr c, [HttpGet (url r)])"
    by blast
  have "gather (map (\<lambda>r. fetch_page_content env (url r)) (r # rs))
          = (Inr (c # cs), map (\<lambda>r. HttpGet (url r)) (r # rs))"
    using g c by (simp add: gather_def)
  moreover have "\<forall>i<length (r # rs). fst (fetch_page_content env (url ((r # rs) ! i))) = Inr ((c # cs) ! i)"
    using v c by (auto simp: nth_Cons')
  ultimately show ?case using l by (intro exI[of _ "c # cs"]) simp
qed

lemma fetch_top_pages_ok:
  "\<exists>rs'. fetch_top_pages env rs = (Inr rs', map (\<lambda>r. HttpGet (url r)) (take 2 rs))
      \<and> length rs' = length rs
      \<and> (\<forall>j<length rs. \<forall>c. fst (fetch_page_content env (url (rs ! j))) = Inr c \<longrightarrow>
            rs' ! j = (if j < 2 \<and> truthy c then (rs ! j)\<lparr>content := c\<rparr> else rs ! j))"
proof -
  from gather_fetch[of env "take 2 rs"] obtain cs where
    g: "gather (map (\<lambda>r. fetch_page_content env (url r)) (take 2 rs))
          = (Inr cs, map (\<lambda>r. HttpGet (url r)) (take 2 rs))"
    and l: "length cs = length (take 2 rs)"
    and v: "\<forall>i<length (take 2 rs). fst (fetch_page_content env (url (take 2 rs ! i))) = Inr (cs ! i)"
    by blast
  from l have "0 + length cs \<le> length rs" by simp
  from attach_contents_ok[OF this] obtain rs' where
    a: "attach_contents 0 cs rs = Inr rs'" and l': "length rs' = length rs"
    and w: "\<forall>j<length rs. rs' ! j =
          (if 0 \<le> j \<and> j < 0 + length cs \<and> truthy (cs ! (j - 0))
           then (rs ! j)\<lparr>content := cs ! (j - 0)\<rparr> else rs ! j)" by blast
  have "\<forall>j<length rs. \<forall>c. fst (fetch_page_content env (url (rs ! j))) = Inr c \<longrightarrow>
            rs' ! j = (if j < 2 \<and> truthy c then (rs ! j)\<lparr>content := c\<rparr> else rs ! j)"
  proof (intro allI impI)
    fix j c assume j: "j < length rs" and c: "fst (fetch_page_content env (url (rs ! j))) = Inr c"
    show "rs' ! j = (if j < 2 \<and> truthy c then (rs ! j)\<lparr>content := c\<rparr> else rs ! j)"
    proof (cases "j < 2")
      case True
      with j l have jl: "j < length (take 2 rs)" by simp
      with v c have "cs ! j = c" by simp
      then show ?thesis using w j jl l True by simp
    next
      case False
      then show ?thesis using w j l by simp
    qed
  qed
  then show ?thesis using g a l' by (simp add: fetch_top_pages_def)
qed

lemma make_result_content: "make_result r = Some x \<Longrightarrow> content x = None"
  unfolding make_result_def
  by (cases "get_or_empty r ''title''"; cases "get_or_empty r ''href''"; cases "get_or_empty r ''body''") auto

lemma convert_hits_content:
  "list_all (\<lambda>x. content x = None) acc \<Longrightarrow> list_all (\<lambda>x. content x = None) (convert_hits hs acc)"
proof (induction hs acc rule: convert_hits.induct)
  case (1 results)
  then show ?case by simp
next
  case (2 r rs results)
  show ?case
  proof (cases "make_result r")
    case None
    then show ?thesis using 2 by simp
  next
    case (Some x)
    then have "content x = None" by (rule make_result_content)
    then show ?thesis using 2 Some by simp
  qed
qed

lemma search_content_None:
  "search_duckduckgo env q m = (Inr rs, c) \<Longrightarrow> list_all (\<lambda>x. content x = None) rs"
  using convert_hits_content[of "[]"]
  by (auto simp: search_duckduckgo_def split: sum.splits)

lemma process_angle_shape:
  "\<exists>p cs. process_angle env plan a =
      (Inr (case extraction_agent env p of
              Inl e \<Rightarrow> \<lparr>angle = a, key_facts = [], claims = [], citations = []\<rparr>
            | Inr d \<Rightarrow> d), cs @ [Extraction p])
    \<and> \<not> list_ex is_extraction cs"
proof -
  let ?q = "topic plan @ '' '' @ a"
  obtain rs where s: "search_duckduckgo env ?q 5 = (Inr rs, [Search ?q 5])"
    using search_total by blast
  obtain rs' where f: "fetch_top_pages env rs = (Inr rs', map (\<lambda>r. HttpGet (url r)) (take 2 rs))"
    using fetch_top_pages_ok by blast
  let ?p = "build_angle_prompt plan a rs'"
  let ?cs = "Search ?q 5 # map (\<lambda>r. HttpGet (url r)) (take 2 rs)"
  have 1: "process_angle env plan a =
      (Inr (case extraction_agent env ?p of
              Inl e \<Rightarrow> \<lparr>angle = a, key_facts = [], claims = [], citations = []\<rparr>
            | Inr d \<Rightarrow> d), ?cs @ [Extraction ?p])"
    using s f by (cases "extraction_agent env ?p") (simp_all add: process_angle_def)
  have 2: "\<not> list_ex is_extraction ?cs"
    by (simp add: list_ex_iff)
  from 1 2 show ?thesis by blast
qed


lemma process_angle_calls:
  "\<exists>p cs. snd (process_angle env plan a) = cs @ [Extraction p]
     \<and> (\<forall>x. Extraction x \<notin> set cs) \<and> (\<forall>x. Synthesis x \<notin> set cs)
     \<and> fst (process_angle env plan a)
         = Inr (case extraction_agent env p of
                  Inl e \<Rightarrow> \<lparr>angle = a, key_facts = [], claims = [], citations = []\<rparr>
                | Inr d \<Rightarrow> d)"
proof -
  let ?q = "topic plan @ '' '' @ a"
  obtain rs where s: "search_duckduckgo env ?q 5 = (Inr rs, [Search ?q 5])"
    using search_total by blast
  obtain rs' where f: "fetch_top_pages env rs = (Inr rs', map (\<lambda>r. HttpGet (url r)) (take 2 rs))"
    using fetch_top_pages_ok by blast
  let ?p = "build_angle_prompt plan a rs'"
  let ?cs = "Search ?q 5 # map (\<lambda>r. HttpGet (url r)) (take 2 rs)"
  have 1: "process_angle env plan a =
      (Inr (case extraction_agent env ?p of
              Inl e \<Rightarrow> \<lparr>angle = a, key_facts = [], claims = [], citations = []\<rparr>
            | Inr d \<Rightarrow> d), ?cs @ [Extraction ?p])"
    using s f by (cases "extraction_agent env ?p") (simp_all add: process_angle_def)
  have 2: "(\<forall>x. Extraction x \<notin> set ?cs) \<and> (\<forall>x. Synthesis x \<notin> set ?cs)"
    by auto
  from 1 2 show ?thesis
    by (intro exI[of _ ?p] exI[of _ ?cs]) simp
qed

lemma process_angle_extraction:
  assumes "Extraction p \<in> set (snd (process_angle env plan a))"
  shows "fst (process_angle env plan a)
         = Inr (case extraction_agent env p of
                  Inl e \<Rightarrow> \<lparr>angle = a, key_facts = [], claims = [], citations = []\<rparr>
                | Inr d \<Rightarrow> d)"
proof -
  from process_angle_calls[of env plan a] obtain p0 cs where
    c: "snd (process_angle env plan a) = cs @ [Extraction p0]"
    and n: "\<forall>x. Extraction x \<notin> set cs"
    and r: "fst (process_angle env plan a)
         = Inr (case extraction_agent env p0 of
                  Inl e \<Rightarrow> \<lparr>angle = a, key_facts = [], claims = [], citations = []\<rparr>
                | Inr d \<Rightarrow> d)" by blast
  from assms c n have "p = p0" by auto
  with r show ?thesis by simp
qed

lemma process_angle_no_synthesis: "Synthesis x \<notin> set (snd (process_angle env plan a))"
proof -
  from process_angle_calls[of env plan a] obtain p0 cs where
    c: "snd (process_angle env plan a) = cs @ [Extraction p0]"
    and n: "\<forall>x. Synthesis x \<notin> set cs" by blast
  then show ?thesis by simp
qed

lemma process_angle_returns: "\<exists>d. fst (process_angle env plan a) = Inr d"
  using process_angle_calls[of env plan a] by auto

lemma gather_process_angle:
  "\<exists>datas. gather (map (process_angle env plan) as)
        = (Inr datas, concat (map (\<lambda>a. snd (process_angle env plan a)) as))
      \<and> length datas = length as
      \<and> (\<forall>i<length as. fst (process_angle env plan (as ! i)) = Inr (datas ! i))"
proof (induction as)
  case Nil
  then show ?case by (simp add: gather_def)
next
  case (Cons a as)
  then obtain datas where g: "gather (map (process_angle env plan) as)
        = (Inr datas, concat (map (\<lambda>a. snd (process_angle env plan a)) as))"
    and l: "length datas = length as"
    and v: "\<forall>i<length as. fst (process_angle env plan (as ! i)) = Inr (datas ! i)" by blast
  from process_angle_returns obtain d where d: "fst (process_angle env plan a) = Inr d" by blast
  have "gather (map (process_angle env plan) (a # as))
        = (Inr (d # datas), concat (map (\<lambda>a. snd (process_angle env plan a)) (a # as)))"
    using g d by (simp add: gather_def comp_def)
  moreover have "\<forall>i<length (a # as). fst (process_angle env plan ((a # as) ! i)) = Inr ((d # datas) ! i)"
    using v d by (auto simp: nth_Cons')
  ultimately show ?case using l by (intro exI[of _ "d # datas"]) simp
qed

lemma deep_research_planned:
  assumes "planning_agent env user_input = Inr plan0"
    and "fst (gather (map (process_angle env (ensure_swot_angle_if_applicable plan0))
            (angles (ensure_swot_angle_if_applicable plan0)))) = Inr datas"
  shows "deep_research env user_input =
     ((case synthesis_agent env (build_report_prompt (ensure_swot_angle_if_applicable plan0) datas) of
         Inl e \<Rightarrow> Inr (''Error synthesizing report: '' @ message e)
       | Inr r \<Rightarrow> Inr (markdown_content r)),
      Planning user_input
        # concat (map (\<lambda>a. snd (process_angle env (ensure_swot_angle_if_applicable plan0) a))
                   (angles (ensure_swot_angle_if_applicable plan0)))
        @ [Synthesis (build_report_prompt (ensure_swot_angle_if_applicable plan0) datas)])"
proof -
  let ?plan = "ensure_swot_angle_if_applicable plan0"
  from gather_process_angle[of env ?plan "angles ?plan"] assms(2)
  have g: "gather (map (process_angle env ?plan) (angles ?plan))
        = (Inr datas, concat (map (\<lambda>a. snd (process_angle env ?plan a)) (angles ?plan)))"
    by auto
  show ?thesis
    using assms(1) g
    by (cases "synthesis_agent env (build_report_prompt ?plan datas)")
       (simp_all add: deep_research_def Let_def)
qed

lemma deep_research_synthesis_call:
  assumes "planning_agent env user_input = Inr plan0"
    and "fst (gather (map (process_angle env (ensure_swot_angle_if_applicable plan0))
            (angles (ensure_swot_angle_if_applicable plan0)))) = Inr datas"
    and "Synthesis p \<in> set (snd (deep_research env user_input))"
  shows "p = build_report_prompt (ensure_swot_angle_if_applicable plan0) datas"
  using assms(3) process_angle_no_synthesis
  unfolding deep_research_planned[OF assms(1,2)] by auto


text \<open>What the prompt of the synthesis holds.\<close>

lemma foldl_append_concat: "foldl (\<lambda>acc x. acc @ f x) init xs = init @ concat (map f xs)"
  by (induction xs arbitrary: init) simp_all

lemma report_prompt_content:
  "build_report_prompt plan datas =
     ''Topic: '' @ topic plan @ [CHR 0x0A] @ ''Context: '' @ context' plan @ [CHR 0x0A, CHR 0x0A]
     @ ''Collected Data:'' @ [CHR 0x0A]
     @ concat (map (\<lambda>d. [CHR 0x0A] @ ''Angle: '' @ angle d @ [CHR 0x0A]
                   @ ''Facts:'' @ [CHR 0x0A]
                   @ join [CHR 0x0A] (map (\<lambda>f. ''- '' @ f) (key_facts d)) @ [CHR 0x0A]
                   @ ''Claims:'' @ [CHR 0x0A]
                   @ join [CHR 0x0A] (map (\<lambda>f. ''- '' @ f) (claims d)) @ [CHR 0x0A]
                   @ ''Citations:'' @ [CHR 0x0A]
                   @ join [CHR 0x0A] (map (\<lambda>f. ''- '' @ f) (citations d)) @ [CHR 0x0A])
               datas)"
  unfolding build_report_prompt_def foldl_append_concat
  by (simp add: data_lines_def bullets_def nl_def)

lemma concat_map_nth_split:
  "i < length xs \<Longrightarrow>
     concat (map f xs) = concat (map f (take i xs)) @ f (xs ! i) @ concat (map f (drop (Suc i) xs))"
proof -
  assume "i < length xs"
  then have "xs = take i xs @ xs ! i # drop (Suc i) xs" by (rule id_take_nth_drop)
  then have "concat (map f xs) = concat (map f (take i xs @ xs ! i # drop (Suc i) xs))" by simp
  then show ?thesis by simp
qed

lemma report_prompt_mentions_each:
  assumes "i < length datas"
  shows "str_in ([CHR 0x0A] @ ''Angle: '' @ angle (datas ! i) @ [CHR 0x0A] @ ''Facts:'')
           (build_report_prompt plan datas)"
proof -
  let ?f = "\<lambda>d. [CHR 0x0A] @ ''Angle: '' @ angle d @ [CHR 0x0A]
                   @ ''Facts:'' @ [CHR 0x0A]
                   @ join [CHR 0x0A] (map (\<lambda>f. ''- '' @ f) (key_facts d)) @ [CHR 0x0A]
                   @ ''Claims:'' @ [CHR 0x0A]
                   @ join [CHR 0x0A] (map (\<lambda>f. ''- '' @ f) (claims d)) @ [CHR 0x0A]
                   @ ''Citations:'' @ [CHR 0x0A]
                   @ join [CHR 0x0A] (map (\<lambda>f. ''- '' @ f) (citations d)) @ [CHR 0x0A]"
  let ?h = "''Topic: '' @ topic plan @ [CHR 0x0A] @ ''Context: '' @ context' plan @ [CHR 0x0A, CHR 0x0A]
     @ ''Collected Data:'' @ [CHR 0x0A]"
  let ?k = "[CHR 0x0A] @ ''Angle: '' @ angle (datas ! i) @ [CHR 0x0A] @ ''Facts:''"
  have "build_report_prompt plan datas = ?h @ concat (map ?f datas)"
    using report_prompt_content[of plan datas] by simp
  also have "concat (map ?f datas)
      = concat (map ?f (take i datas)) @ ?f (datas ! i) @ concat (map ?f (drop (Suc i) datas))"
    using assms by (rule concat_map_nth_split)
  finally have "build_report_prompt plan datas
      = (?h @ concat (map ?f (take i datas))) @ ?k
        @ ([CHR 0x0A]
           @ join [CHR 0x0A] (map (\<lambda>f. ''- '' @ f) (key_facts (datas ! i))) @ [CHR 0x0A]
           @ ''Claims:'' @ [CHR 0x0A]
           @ join [CHR 0x0A] (map (\<lambda>f. ''- '' @ f) (claims (datas ! i))) @ [CHR 0x0A]
           @ ''Citations:'' @ [CHR 0x0A]
           @ join [CHR 0x0A] (map (\<lambda>f. ''- '' @ f) (citations (datas ! i))) @ [CHR 0x0A]
           @ concat (map ?f (drop (Suc i) datas)))"
    by simp
  then show ?thesis unfolding str_in_iff by blast
qed


section \<open>Claims about the SWOT rule\<close>

text \<open>
  C1 (amended). For every plan whose ticker flag is true, or whose lowercased topic and
  context contain one of the financial keywords, and which arrives with 3 or 4 angles
  of which at most one contains "swot" (case-insensitive): after
  \<open>ensure_swot_angle_if_applicable\<close> exactly one angle contains "swot", and the plan
  has at least 3 and at most 4 angles.
\<close>
theorem ensure_swot_exactly_one_in_range:
  assumes "is_ticker p \<or> list_ex (\<lambda>k. str_in k (lower (topic p @ '' '' @ context' p))) keywords'"
    and "3 \<le> length (angles p)" and "length (angles p) \<le> 4"
    and "length (filter mentions_swot (angles p)) \<le> 1"
  shows "length (filter mentions_swot (angles (ensure_swot_angle_if_applicable p))) = 1
       \<and> 3 \<le> length (angles (ensure_swot_angle_if_applicable p))
       \<and> length (angles (ensure_swot_angle_if_applicable p)) \<le> 4"
proof -
  from assms(1) have n: "needs_swot p" by (simp add: needs_swot_iff)
  show ?thesis
  proof (cases "list_ex mentions_swot (angles p)")
    case True
    then have "filter mentions_swot (angles p) \<noteq> []"
      by (auto simp: list_ex_iff filter_empty_conv)
    then have "length (filter mentions_swot (angles p)) = 1" using assms(4)
      by (cases "filter mentions_swot (angles p)") auto
    then show ?thesis using True assms by (simp add: ensure_present)
  next
    case False
    show ?thesis
    proof (cases "4 \<le> length (angles p)")
      case True
      then show ?thesis using False n assms
        by (simp add: ensure_angles_absent_full filter_butlast_absent mentions_swot_literal)
    next
      case short: False
      then show ?thesis using False n assms
        by (simp add: ensure_angles_absent_short filter_none mentions_swot_literal)
    qed
  qed
qed

lemma volkswagen_trigger:
  "list_ex (\<lambda>k. str_in k (lower (topic volkswagen_plan @ '' '' @ context' volkswagen_plan))) keywords'"
  by code_simp

lemma volkswagen_no_swot: "filter mentions_swot (angles volkswagen_plan) = []"
  by code_simp

text \<open>The amended C1 at a plan that the keyword "company" triggers.\<close>
theorem ensure_swot_exactly_one_in_range_witness:
  "\<not> is_ticker volkswagen_plan
   \<and> list_ex (\<lambda>k. str_in k (lower (topic volkswagen_plan @ '' '' @ context' volkswagen_plan))) keywords'
   \<and> length (angles volkswagen_plan) = 3
   \<and> length (filter mentions_swot (angles volkswagen_plan)) = 0
   \<and> length (filter mentions_swot (angles (ensure_swot_angle_if_applicable volkswagen_plan))) = 1
   \<and> 3 \<le> length (angles (ensure_swot_angle_if_applicable volkswagen_plan))
   \<and> length (angles (ensure_swot_angle_if_applicable volkswagen_plan)) \<le> 4"
proof -
  have t: "is_ticker volkswagen_plan \<or>
      list_ex (\<lambda>k. str_in k (lower (topic volkswagen_plan @ '' '' @ context' volkswagen_plan))) keywords'"
    using volkswagen_trigger by simp
  have l: "3 \<le> length (angles volkswagen_plan)" "length (angles volkswagen_plan) \<le> 4"
    by (simp_all add: volkswagen_plan_def)
  have c: "length (filter mentions_swot (angles volkswagen_plan)) \<le> 1"
    by (simp add: volkswagen_no_swot)
  from ensure_swot_exactly_one_in_range[OF t l c] show ?thesis
    using volkswagen_trigger volkswagen_no_swot by (simp add: volkswagen_plan_def)
qed

text \<open>
  C1 as stated fails: a ticker plan that arrives with five angles, two of which mention
  SWOT, is left as it is, with two SWOT angles and five angles in all.
\<close>
theorem ensure_swot_exactly_one_counterexample:
  "is_ticker crowded_plan
   \<and> length (filter mentions_swot (angles (ensure_swot_angle_if_applicable crowded_plan))) = 2
   \<and> length (angles (ensure_swot_angle_if_applicable crowded_plan)) = 5"
  by code_simp

text \<open>
  C2. For every plan that triggers the rule, has exactly 4 angles and none that mentions
  SWOT, \<open>ensure_swot_angle_if_applicable\<close> replaces the last angle by "SWOT analysis":
  the first three angles are unchanged and the list still has 4 angles.
\<close>
theorem ensure_swot_replaces_last_of_four:
  assumes "is_ticker p \<or> list_ex (\<lambda>k. str_in k (lower (topic p @ '' '' @ context' p))) keywords'"
    and "length (angles p) = 4"
    and "\<not> list_ex mentions_swot (angles p)"
  shows "angles (ensure_swot_angle_if_applicable p) = take 3 (angles p) @ [''SWOT analysis'']
       \<and> length (angles (ensure_swot_angle_if_applicable p)) = 4"
proof -
  from assms(1) have n: "needs_swot p" by (simp add: needs_swot_iff)
  from assms(2) have "butlast (angles p) = take 3 (angles p)" by (simp add: butlast_conv_take)
  with n assms show ?thesis by (simp add: ensure_angles_absent_full)
qed

lemma full_plan_no_swot: "\<not> list_ex mentions_swot (angles full_plan)"
  by code_simp

text \<open>C2 at a ticker plan with four angles.\<close>
theorem ensure_swot_replaces_last_of_four_witness:
  "is_ticker full_plan \<and> length (angles full_plan) = 4
   \<and> \<not> list_ex mentions_swot (angles full_plan)
   \<and> angles (ensure_swot_angle_if_applicable full_plan)
       = [''recent performance'', ''market positioning'', ''guidance'', ''SWOT analysis'']"
proof -
  have t: "is_ticker full_plan \<or>
      list_ex (\<lambda>k. str_in k (lower (topic full_plan @ '' '' @ context' full_plan))) keywords'"
    by (simp add: full_plan_def)
  have l: "length (angles full_plan) = 4" by (simp add: full_plan_def)
  from ensure_swot_replaces_last_of_four[OF t l full_plan_no_swot] show ?thesis
    using full_plan_no_swot by (simp add: full_plan_def)
qed

text \<open>
  C9. \<open>ensure_swot_angle_if_applicable\<close> is idempotent: applying it twice gives the
  same plan as applying it once.
\<close>
theorem ensure_swot_idempotent:
  "ensure_swot_angle_if_applicable (ensure_swot_angle_if_applicable p)
     = ensure_swot_angle_if_applicable p"
proof (cases "needs_swot p")
  case True
  then show ?thesis using ensure_has_swot[OF True] by (simp add: ensure_present)
next
  case False
  then show ?thesis by (simp add: ensure_not_needed)
qed

text \<open>
  C10. \<open>ensure_swot_angle_if_applicable\<close> never changes the ticker flag, the topic or
  the context; and when the ticker flag is false and no financial keyword occurs in the
  lowercased topic and context, the angles are unchanged too.
\<close>
theorem ensure_swot_frame:
  "is_ticker (ensure_swot_angle_if_applicable p) = is_ticker p
   \<and> topic (ensure_swot_angle_if_applicable p) = topic p
   \<and> context' (ensure_swot_angle_if_applicable p) = context' p
   \<and> (\<not> is_ticker p
        \<and> \<not> list_ex (\<lambda>k. str_in k (lower (topic p @ '' '' @ context' p))) keywords'
      \<longrightarrow> angles (ensure_swot_angle_if_applicable p) = angles p)"
  by (simp add: ensure_swot_angle_if_applicable_def needs_swot_iff)

lemma quantum_no_keyword:
  "\<not> list_ex (\<lambda>k. str_in k (lower (topic quantum_plan @ '' '' @ context' quantum_plan))) keywords'"
  by code_simp

text \<open>C10 at a plan that does not trigger the rule.\<close>
theorem ensure_swot_frame_witness:
  "\<not> is_ticker quantum_plan
   \<and> \<not> list_ex (\<lambda>k. str_in k (lower (topic quantum_plan @ '' '' @ context' quantum_plan))) keywords'
   \<and> ensure_swot_angle_if_applicable quantum_plan = quantum_plan"
proof -
  have t: "\<not> is_ticker quantum_plan" by (simp add: quantum_plan_def)
  from ensure_swot_frame[of quantum_plan] t quantum_no_keyword
  have "is_ticker (ensure_swot_angle_if_applicable quantum_plan) = is_ticker quantum_plan"
    "topic (ensure_swot_angle_if_applicable quantum_plan) = topic quantum_plan"
    "context' (ensure_swot_angle_if_applicable quantum_plan) = context' quantum_plan"
    "angles (ensure_swot_angle_if_applicable quantum_plan) = angles quantum_plan"
    by simp_all
  then have "ensure_swot_angle_if_applicable quantum_plan = quantum_plan"
    by (intro ResearchPlan.equality) simp_all
  with t quantum_no_keyword show ?thesis by simp
qed

section \<open>Claims about the tools\<close>

text \<open>
  C5. For every query, if the call of the search provider raises, \<open>search_duckduckgo\<close>
  returns normally with the empty list: the exception is not propagated.
\<close>
theorem search_provider_failure_gives_empty:
  "ddgs_text env query max_results = Inl e \<Longrightarrow>
     search_duckduckgo env query max_results = (Inr [], [Search query max_results])"
  by (simp add: search_duckduckgo_def)


text \<open>C5 at a query on which the sample provider raises.\<close>
theorem search_provider_failure_gives_empty_witness:
  "ddgs_text demo_env ''Tesla guidance'' 5 = Inl (Exception ''rate limited'')
   \<and> search_duckduckgo demo_env ''Tesla guidance'' 5 = (Inr [], [Search ''Tesla guidance'' 5])"
proof -
  have h: "ddgs_text demo_env ''Tesla guidance'' 5 = Inl (Exception ''rate limited'')"
    by (simp add: demo_env_def)
  from search_provider_failure_gives_empty[OF h] h show ?thesis by simp
qed


text \<open>
  C6. For every URL, if the request raises (a timeout is one such exception), if the
  status is not 2xx, or if parsing the page raises, \<open>fetch_page_content\<close> returns
  \<open>None\<close>; and it returns normally in every case, so no exception is propagated.
\<close>
theorem fetch_failure_gives_None:
  "(client_get env u = Inl e \<longrightarrow> fst (fetch_page_content env u) = Inr None)
 \<and> (client_get env u = Inr response \<and> \<not> is_success response
      \<longrightarrow> fst (fetch_page_content env u) = Inr None)
 \<and> (client_get env u = Inr response \<and> is_success response
        \<and> soup_text env (text' response) = Inl e'
      \<longrightarrow> fst (fetch_page_content env u) = Inr None)
 \<and> (\<exists>r. fst (fetch_page_content env u) = Inr r)"
  by (auto simp add: fetch_page_content_def split: sum.splits)


text \<open>C6 at a request that times out, at a 404 and at a page that does not parse.\<close>
theorem fetch_failure_gives_None_witness:
  "client_get demo_env ''https://slow.example'' = Inl (Exception ''timed out'')
   \<and> fst (fetch_page_content demo_env ''https://slow.example'') = Inr None
   \<and> client_get demo_env ''https://b.example'' = Inr \<lparr>status_code = 404, text' = ''gone''\<rparr>
   \<and> \<not> is_success \<lparr>status_code = 404, text' = ''gone''\<rparr>
   \<and> fst (fetch_page_content demo_env ''https://b.example'') = Inr None
   \<and> client_get demo_env ''https://c.example'' = Inr \<lparr>status_code = 200, text' = ''<p''\<rparr>
   \<and> is_success \<lparr>status_code = 200, text' = ''<p''\<rparr>
   \<and> soup_text demo_env ''<p'' = Inl (Exception ''parse error'')
   \<and> fst (fetch_page_content demo_env ''https://c.example'') = Inr None"
proof -
  have a: "client_get demo_env ''https://slow.example'' = Inl (Exception ''timed out'')"
    by (simp add: demo_env_def)
  have b: "client_get demo_env ''https://b.example'' = Inr \<lparr>status_code = 404, text' = ''gone''\<rparr>"
    "\<not> is_success \<lparr>status_code = 404, text' = ''gone''\<rparr>"
    by (simp_all add: demo_env_def is_success_def)
  have c: "client_get demo_env ''https://c.example'' = Inr \<lparr>status_code = 200, text' = ''<p''\<rparr>"
    "is_success \<lparr>status_code = 200, text' = ''<p''\<rparr>"
    "soup_text demo_env (text' \<lparr>status_code = 200, text' = ''<p''\<rparr>) = Inl (Exception ''parse error'')"
    by (simp_all add: demo_env_def is_success_def)
  from fetch_failure_gives_None[of demo_env "''https://slow.example''" "Exception ''timed out''"] a
  have 1: "fst (fetch_page_content demo_env ''https://slow.example'') = Inr None" by blast
  from fetch_failure_gives_None[of demo_env "''https://b.example''" _ "\<lparr>status_code = 404, text' = ''gone''\<rparr>"] b
  have 2: "fst (fetch_page_content demo_env ''https://b.example'') = Inr None" by blast
  from fetch_failure_gives_None[of demo_env "''https://c.example''" _ "\<lparr>status_code = 200, text' = ''<p''\<rparr>" "Exception ''parse error''"] c
  have 3: "fst (fetch_page_content demo_env ''https://c.example'') = Inr None" by blast
  from a b c 1 2 3 show ?thesis by simp
qed


text \<open>
  C7. For every URL whose page is fetched with a 2xx status and parsed,
  \<open>fetch_page_content\<close> returns the cleaned text of the page cut to its first 10000
  characters; and whenever \<open>fetch_page_content\<close> returns a string, it is such a cut
  text, of at most 10000 characters.
\<close>

theorem fetch_success_truncated:
  "(client_get env u = Inr response \<and> is_success response
      \<and> soup_text env (text' response) = Inr t
    \<longrightarrow> fst (fetch_page_content env u) = Inr (Some (take 10000 t)))
   \<and> (fst (fetch_page_content env u) = Inr (Some s)
    \<longrightarrow> length s \<le> 10000 \<and>
       (\<exists>response t. client_get env u = Inr response \<and> is_success response
          \<and> soup_text env (text' response) = Inr t \<and> s = take 10000 t))"
  by (auto simp add: fetch_page_content_def split: sum.splits if_splits)

text \<open>
  C7 at a page whose cleaned text has 12000 characters, of which 10000 are returned, and
  at a short page, returned whole.
\<close>

theorem fetch_success_truncated_witness:
  "client_get long_page_env ''https://long.example'' = Inr \<lparr>status_code = 200, text' = ''<p>long</p>''\<rparr>
   \<and> is_success \<lparr>status_code = 200, text' = ''<p>long</p>''\<rparr>
   \<and> soup_text long_page_env ''<p>long</p>'' = Inr (replicate 12000 CHR ''a'')
   \<and> length (replicate 12000 CHR ''a'') = 12000
   \<and> fst (fetch_page_content long_page_env ''https://long.example'')
       = Inr (Some (replicate 10000 CHR ''a''))
   \<and> length (replicate 10000 CHR ''a'') = 10000
   \<and> fst (fetch_page_content demo_env ''https://a.example'') = Inr (Some ''ok'')
   \<and> length ''ok'' \<le> 10000"
proof -
  let ?r = "\<lparr>status_code = 200, text' = ''<p>long</p>''\<rparr>"
  have a: "client_get long_page_env ''https://long.example'' = Inr ?r"
    by (simp add: long_page_env_def)
  have b: "is_success ?r" by (simp add: is_success_def)
  have c: "soup_text long_page_env (text' ?r) = Inr (replicate 12000 CHR ''a'')"
    by (simp add: long_page_env_def)
  from fetch_success_truncated[of long_page_env "''https://long.example''" ?r
      "replicate 12000 CHR ''a''"] a b c
  have 1: "fst (fetch_page_content long_page_env ''https://long.example'')
       = Inr (Some (take 10000 (replicate 12000 CHR ''a'')))" by blast
  have t: "take 10000 (replicate 12000 CHR ''a'') = replicate 10000 CHR ''a''"
    by (simp add: take_replicate)
  have h: "fst (fetch_page_content demo_env ''https://a.example'') = Inr (Some ''ok'')"
    by (simp add: fetch_page_content_def demo_env_def is_success_def)
  from fetch_success_truncated[of demo_env "''https://a.example''" _ _ "''ok''"] h
  have 2: "length ''ok'' \<le> 10000" by blast
  from a b c 1 t h 2 show ?thesis by simp
qed


section \<open>Claims about the orchestration\<close>

lemma sample_search:
  "search_duckduckgo demo_env ''Tesla SWOT analysis'' 5 = (Inr sample_results, [Search ''Tesla SWOT analysis'' 5])"
  by (simp add: search_duckduckgo_def demo_env_def sample_hits_def sample_results_def make_result_def get_or_empty_def)


text \<open>
  C8. For every angle and every list of search results, \<open>process_angle\<close> fetches the
  pages of the first 2 results only, and attaches fetched text to those results only:
  a result at index 2 or beyond is unchanged, so that its content stays \<open>None\<close>, and a
  fetch that returns \<open>None\<close> leaves the content of its result unchanged.
\<close>
theorem process_angle_fetches_top_two:
  "\<exists>rs'. fetch_top_pages env rs = (Inr rs', map (\<lambda>r. HttpGet (url r)) (take 2 rs))
      \<and> length rs' = length rs
      \<and> (\<forall>j<length rs. 2 \<le> j \<longrightarrow> rs' ! j = rs ! j)
      \<and> (\<forall>j<length rs. fst (fetch_page_content env (url (rs ! j))) = Inr None
            \<longrightarrow> rs' ! j = rs ! j)
      \<and> (\<forall>j<length rs. \<forall>s. j < 2 \<and> s \<noteq> []
            \<and> fst (fetch_page_content env (url (rs ! j))) = Inr (Some s)
            \<longrightarrow> rs' ! j = (rs ! j)\<lparr>content := Some s\<rparr>)
      \<and> (fst (search_duckduckgo env (topic plan @ '' '' @ a) 5) = Inr rs \<longrightarrow>
            (\<forall>j<length rs. 2 \<le> j \<longrightarrow> content (rs' ! j) = None)
            \<and> snd (process_angle env plan a)
                = Search (topic plan @ '' '' @ a) 5 # map (\<lambda>r. HttpGet (url r)) (take 2 rs)
                  @ [Extraction (build_angle_prompt plan a rs')])"
proof -
  from fetch_top_pages_ok[of env rs] obtain rs' where
    f: "fetch_top_pages env rs = (Inr rs', map (\<lambda>r. HttpGet (url r)) (take 2 rs))"
    and l: "length rs' = length rs"
    and v: "\<forall>j<length rs. \<forall>c. fst (fetch_page_content env (url (rs ! j))) = Inr c \<longrightarrow>
            rs' ! j = (if j < 2 \<and> truthy c then (rs ! j)\<lparr>content := c\<rparr> else rs ! j)"
    by blast
  have far: "\<forall>j<length rs. 2 \<le> j \<longrightarrow> rs' ! j = rs ! j"
  proof (intro allI impI)
    fix j assume j: "j < length rs" and "2 \<le> j"
    obtain c where "fetch_page_content env (url (rs ! j)) = (Inr c, [HttpGet (url (rs ! j))])"
      using fetch_total by blast
    then have "fst (fetch_page_content env (url (rs ! j))) = Inr c" by simp
    with v j have "rs' ! j = (if j < 2 \<and> truthy c then (rs ! j)\<lparr>content := c\<rparr> else rs ! j)"
      by blast
    with \<open>2 \<le> j\<close> show "rs' ! j = rs ! j" by simp
  qed
  have none: "\<forall>j<length rs. fst (fetch_page_content env (url (rs ! j))) = Inr None
            \<longrightarrow> rs' ! j = rs ! j"
    using v by (auto simp: truthy_def)
  have some: "\<forall>j<length rs. \<forall>s. j < 2 \<and> s \<noteq> []
            \<and> fst (fetch_page_content env (url (rs ! j))) = Inr (Some s)
            \<longrightarrow> rs' ! j = (rs ! j)\<lparr>content := Some s\<rparr>"
    using v by (auto simp: truthy_def)
  have pipeline: "fst (search_duckduckgo env (topic plan @ '' '' @ a) 5) = Inr rs \<longrightarrow>
            (\<forall>j<length rs. 2 \<le> j \<longrightarrow> content (rs' ! j) = None)
            \<and> snd (process_angle env plan a)
                = Search (topic plan @ '' '' @ a) 5 # map (\<lambda>r. HttpGet (url r)) (take 2 rs)
                  @ [Extraction (build_angle_prompt plan a rs')]"
  proof
    assume s: "fst (search_duckduckgo env (topic plan @ '' '' @ a) 5) = Inr rs"
    obtain rs0 where s0: "search_duckduckgo env (topic plan @ '' '' @ a) 5
        = (Inr rs0, [Search (topic plan @ '' '' @ a) 5])"
      using search_total by blast
    with s have s1: "search_duckduckgo env (topic plan @ '' '' @ a) 5
        = (Inr rs, [Search (topic plan @ '' '' @ a) 5])" by simp
    from search_content_None[OF s1] have "list_all (\<lambda>x. content x = None) rs" .
    then have "\<forall>j<length rs. content (rs ! j) = None" by (simp add: list_all_length)
    with far have 1: "\<forall>j<length rs. 2 \<le> j \<longrightarrow> content (rs' ! j) = None" by simp
    have 2: "snd (process_angle env plan a)
                = Search (topic plan @ '' '' @ a) 5 # map (\<lambda>r. HttpGet (url r)) (take 2 rs)
                  @ [Extraction (build_angle_prompt plan a rs')]"
      using s1 f by (cases "extraction_agent env (build_angle_prompt plan a rs')")
        (simp_all add: process_angle_def)
    from 1 2 show "(\<forall>j<length rs. 2 \<le> j \<longrightarrow> content (rs' ! j) = None)
            \<and> snd (process_angle env plan a)
                = Search (topic plan @ '' '' @ a) 5 # map (\<lambda>r. HttpGet (url r)) (take 2 rs)
                  @ [Extraction (build_angle_prompt plan a rs')]" by simp
  qed
  from f l far none some pipeline show ?thesis by blast
qed

lemma sample_fetches:
  "fst (fetch_page_content demo_env (url (sample_results ! 0))) = Inr (Some ''ok'')"
  "fst (fetch_page_content demo_env (url (sample_results ! 1))) = Inr None"
  by (simp_all add: fetch_page_content_def demo_env_def is_success_def sample_results_def)


text \<open>
  C8 at three search results: the first page is fetched and attached, the second is a
  404, the third is not fetched.
\<close>
theorem process_angle_fetches_top_two_witness:
  "fst (search_duckduckgo demo_env (topic tesla_plan @ '' '' @ ''SWOT analysis'') 5) = Inr sample_results
   \<and> fst (fetch_page_content demo_env (url (sample_results ! 0))) = Inr (Some ''ok'')
   \<and> fst (fetch_page_content demo_env (url (sample_results ! 1))) = Inr None
   \<and> (\<exists>rs'. fetch_top_pages demo_env sample_results
               = (Inr rs', [HttpGet ''https://a.example'', HttpGet ''https://b.example''])
        \<and> rs' = [(sample_results ! 0)\<lparr>content := Some ''ok''\<rparr>, sample_results ! 1, sample_results ! 2]
        \<and> content (rs' ! 2) = None
        \<and> snd (process_angle demo_env tesla_plan ''SWOT analysis'')
            = [Search ''Tesla SWOT analysis'' 5, HttpGet ''https://a.example'',
               HttpGet ''https://b.example'',
               Extraction (build_angle_prompt tesla_plan ''SWOT analysis'' rs')])"
proof -
  have s: "fst (search_duckduckgo demo_env (topic tesla_plan @ '' '' @ ''SWOT analysis'') 5) = Inr sample_results"
    using sample_search by (simp add: tesla_plan_def)
  have len: "length sample_results = 3" by (simp add: sample_results_def)
  from process_angle_fetches_top_two[of demo_env sample_results tesla_plan "''SWOT analysis''"]
  obtain rs' where
    f: "fetch_top_pages demo_env sample_results = (Inr rs', map (\<lambda>r. HttpGet (url r)) (take 2 sample_results))"
    and l: "length rs' = length sample_results"
    and far: "\<forall>j<length sample_results. 2 \<le> j \<longrightarrow> rs' ! j = sample_results ! j"
    and none: "\<forall>j<length sample_results. fst (fetch_page_content demo_env (url (sample_results ! j))) = Inr None
            \<longrightarrow> rs' ! j = sample_results ! j"
    and some: "\<forall>j<length sample_results. \<forall>s. j < 2 \<and> s \<noteq> []
            \<and> fst (fetch_page_content demo_env (url (sample_results ! j))) = Inr (Some s)
            \<longrightarrow> rs' ! j = (sample_results ! j)\<lparr>content := Some s\<rparr>"
    and pipeline: "fst (search_duckduckgo demo_env (topic tesla_plan @ '' '' @ ''SWOT analysis'') 5) = Inr sample_results \<longrightarrow>
            (\<forall>j<length sample_results. 2 \<le> j \<longrightarrow> content (rs' ! j) = None)
            \<and> snd (process_angle demo_env tesla_plan ''SWOT analysis'')
                = Search (topic tesla_plan @ '' '' @ ''SWOT analysis'') 5 # map (\<lambda>r. HttpGet (url r)) (take 2 sample_results)
                  @ [Extraction (build_angle_prompt tesla_plan ''SWOT analysis'' rs')]"
    by blast
  from far len have r2: "rs' ! 2 = sample_results ! 2" by simp
  from none len sample_fetches(2) have r1: "rs' ! 1 = sample_results ! 1" by simp
  from some len sample_fetches(1) have r0: "rs' ! 0 = (sample_results ! 0)\<lparr>content := Some ''ok''\<rparr>"
    by auto
  from l len have "rs' = [rs' ! 0, rs' ! 1, rs' ! 2]"
    by (cases rs'; simp; cases "tl rs'"; simp; cases "tl (tl rs')"; simp) 
  with r0 r1 r2 have eq: "rs' = [(sample_results ! 0)\<lparr>content := Some ''ok''\<rparr>, sample_results ! 1, sample_results ! 2]"
    by simp
  from pipeline s len have c2: "content (rs' ! 2) = None"
    and calls: "snd (process_angle demo_env tesla_plan ''SWOT analysis'')
                = Search (topic tesla_plan @ '' '' @ ''SWOT analysis'') 5 # map (\<lambda>r. HttpGet (url r)) (take 2 sample_results)
                  @ [Extraction (build_angle_prompt tesla_plan ''SWOT analysis'' rs')]"
    by simp_all
  have f': "fetch_top_pages demo_env sample_results
               = (Inr rs', [HttpGet ''https://a.example'', HttpGet ''https://b.example''])"
    using f by (simp add: sample_results_def)
  have calls': "snd (process_angle demo_env tesla_plan ''SWOT analysis'')
            = [Search ''Tesla SWOT analysis'' 5, HttpGet ''https://a.example'',
               HttpGet ''https://b.example'',
               Extraction (build_angle_prompt tesla_plan ''SWOT analysis'' rs')]"
    using calls by (simp add: sample_results_def tesla_plan_def)
  from s sample_fetches f' eq c2 calls' show ?thesis by blast
qed

text \<open>
  C3. If the extraction call that \<open>process_angle\<close> makes for an angle raises,
  \<open>process_angle\<close> returns for that angle an \<open>AngleData\<close> whose angle is the planned
  angle and whose facts, claims and citations are empty. And once a plan is made, the
  orchestrator collects one entry per planned angle, each the result of the extraction
  of its angle or, where that raised, the empty placeholder, and calls the synthesis on
  a prompt that holds, after the topic and the context, one block per entry in the
  order of the angles: the angle, the facts, the claims and the citations of the entry.
\<close>

theorem failed_extraction_gives_placeholder:
  "(Extraction p \<in> set (snd (process_angle env plan a)) \<and> extraction_agent env p = Inl e
      \<longrightarrow> fst (process_angle env plan a)
            = Inr \<lparr>angle = a, key_facts = [], claims = [], citations = []\<rparr>)
   \<and> (planning_agent env user_input = Inr plan0
        \<and> plan = ensure_swot_angle_if_applicable plan0
      \<longrightarrow> (\<exists>datas.
             fst (gather (map (process_angle env plan) (angles plan))) = Inr datas
           \<and> length datas = length (angles plan)
           \<and> (\<forall>i<length (angles plan). \<forall>q.
                 Extraction q \<in> set (snd (process_angle env plan (angles plan ! i)))
                 \<longrightarrow> datas ! i =
                       (case extraction_agent env q of
                          Inl e \<Rightarrow> \<lparr>angle = angles plan ! i, key_facts = [], claims = [],
                                     citations = []\<rparr>
                        | Inr d \<Rightarrow> d))
           \<and> build_report_prompt plan datas =
               ''Topic: '' @ topic plan @ [CHR 0x0A] @ ''Context: '' @ context' plan
               @ [CHR 0x0A, CHR 0x0A] @ ''Collected Data:'' @ [CHR 0x0A]
               @ concat (map (\<lambda>d. [CHR 0x0A] @ ''Angle: '' @ angle d @ [CHR 0x0A]
                     @ ''Facts:'' @ [CHR 0x0A]
                     @ join [CHR 0x0A] (map (\<lambda>f. ''- '' @ f) (key_facts d)) @ [CHR 0x0A]
                     @ ''Claims:'' @ [CHR 0x0A]
                     @ join [CHR 0x0A] (map (\<lambda>f. ''- '' @ f) (claims d)) @ [CHR 0x0A]
                     @ ''Citations:'' @ [CHR 0x0A]
                     @ join [CHR 0x0A] (map (\<lambda>f. ''- '' @ f) (citations d)) @ [CHR 0x0A])
                   datas)
           \<and> (\<forall>i<length (angles plan).
                 str_in ([CHR 0x0A] @ ''Angle: '' @ angle (datas ! i) @ [CHR 0x0A] @ ''Facts:'')
                   (build_report_prompt plan datas))
           \<and> Synthesis (build_report_prompt plan datas) \<in> set (snd (deep_research env user_input))
           \<and> fst (deep_research env user_input) =
               (case synthesis_agent env (build_report_prompt plan datas) of
                  Inl e \<Rightarrow> Inr (''Error synthesizing report: '' @ message e)
                | Inr r \<Rightarrow> Inr (markdown_content r))))"
proof (intro conjI impI)
  assume "Extraction p \<in> set (snd (process_angle env plan a)) \<and> extraction_agent env p = Inl e"
  then show "fst (process_angle env plan a)
            = Inr \<lparr>angle = a, key_facts = [], claims = [], citations = []\<rparr>"
    using process_angle_extraction[of p env plan a] by simp
next
  assume h: "planning_agent env user_input = Inr plan0
        \<and> plan = ensure_swot_angle_if_applicable plan0"
  from gather_process_angle[of env plan "angles plan"] obtain datas where
    g: "gather (map (process_angle env plan) (angles plan))
        = (Inr datas, concat (map (\<lambda>a. snd (process_angle env plan a)) (angles plan)))"
    and l: "length datas = length (angles plan)"
    and v: "\<forall>i<length (angles plan). fst (process_angle env plan (angles plan ! i)) = Inr (datas ! i)"
    by blast
  from g have g1: "fst (gather (map (process_angle env plan) (angles plan))) = Inr datas" by simp
  have each: "\<forall>i<length (angles plan). \<forall>q.
                 Extraction q \<in> set (snd (process_angle env plan (angles plan ! i)))
                 \<longrightarrow> datas ! i =
                       (case extraction_agent env q of
                          Inl e \<Rightarrow> \<lparr>angle = angles plan ! i, key_facts = [], claims = [],
                                     citations = []\<rparr>
                        | Inr d \<Rightarrow> d)"
  proof (intro allI impI)
    fix i q assume i: "i < length (angles plan)"
      and q: "Extraction q \<in> set (snd (process_angle env plan (angles plan ! i)))"
    from process_angle_extraction[OF q] v i
    show "datas ! i =
                       (case extraction_agent env q of
                          Inl e \<Rightarrow> \<lparr>angle = angles plan ! i, key_facts = [], claims = [],
                                     citations = []\<rparr>
                        | Inr d \<Rightarrow> d)" by simp
  qed
  have c1: "build_report_prompt plan datas =
               ''Topic: '' @ topic plan @ [CHR 0x0A] @ ''Context: '' @ context' plan
               @ [CHR 0x0A, CHR 0x0A] @ ''Collected Data:'' @ [CHR 0x0A]
               @ concat (map (\<lambda>d. [CHR 0x0A] @ ''Angle: '' @ angle d @ [CHR 0x0A]
                     @ ''Facts:'' @ [CHR 0x0A]
                     @ join [CHR 0x0A] (map (\<lambda>f. ''- '' @ f) (key_facts d)) @ [CHR 0x0A]
                     @ ''Claims:'' @ [CHR 0x0A]
                     @ join [CHR 0x0A] (map (\<lambda>f. ''- '' @ f) (claims d)) @ [CHR 0x0A]
                     @ ''Citations:'' @ [CHR 0x0A]
                     @ join [CHR 0x0A] (map (\<lambda>f. ''- '' @ f) (citations d)) @ [CHR 0x0A])
                   datas)"
    using report_prompt_content[of plan datas] by simp
  have c2: "\<forall>i<length (angles plan).
                 str_in ([CHR 0x0A] @ ''Angle: '' @ angle (datas ! i) @ [CHR 0x0A] @ ''Facts:'')
                   (build_report_prompt plan datas)"
    using report_prompt_mentions_each[of _ datas plan] l by simp
  from h g1 have dr: "deep_research env user_input =
     ((case synthesis_agent env (build_report_prompt plan datas) of
         Inl e \<Rightarrow> Inr (''Error synthesizing report: '' @ message e)
       | Inr r \<Rightarrow> Inr (markdown_content r)),
      Planning user_input
        # concat (map (\<lambda>a. snd (process_angle env plan a)) (angles plan))
        @ [Synthesis (build_report_prompt plan datas)])"
    using deep_research_planned[of env user_input plan0 datas] by simp
  have s1: "Synthesis (build_report_prompt plan datas) \<in> set (snd (deep_research env user_input))"
    unfolding dr by simp
  have s2: "fst (deep_research env user_input) =
               (case synthesis_agent env (build_report_prompt plan datas) of
                  Inl e \<Rightarrow> Inr (''Error synthesizing report: '' @ message e)
                | Inr r \<Rightarrow> Inr (markdown_content r))"
    unfolding dr by simp
  show "(\<exists>datas.
             fst (gather (map (process_angle env plan) (angles plan))) = Inr datas
           \<and> length datas = length (angles plan)
           \<and> (\<forall>i<length (angles plan). \<forall>q.
                 Extraction q \<in> set (snd (process_angle env plan (angles plan ! i)))
                 \<longrightarrow> datas ! i =
                       (case extraction_agent env q of
                          Inl e \<Rightarrow> \<lparr>angle = angles plan ! i, key_facts = [], claims = [],
                                     citations = []\<rparr>
                        | Inr d \<Rightarrow> d))
           \<and> build_report_prompt plan datas =
               ''Topic: '' @ topic plan @ [CHR 0x0A] @ ''Context: '' @ context' plan
               @ [CHR 0x0A, CHR 0x0A] @ ''Collected Data:'' @ [CHR 0x0A]
               @ concat (map (\<lambda>d. [CHR 0x0A] @ ''Angle: '' @ angle d @ [CHR 0x0A]
                     @ ''Facts:'' @ [CHR 0x0A]
                     @ join [CHR 0x0A] (map (\<lambda>f. ''- '' @ f) (key_facts d)) @ [CHR 0x0A]
                     @ ''Claims:'' @ [CHR 0x0A]
                     @ join [CHR 0x0A] (map (\<lambda>f. ''- '' @ f) (claims d)) @ [CHR 0x0A]
                     @ ''Citations:'' @ [CHR 0x0A]
                     @ join [CHR 0x0A] (map (\<lambda>f. ''- '' @ f) (citations d)) @ [CHR 0x0A])
                   datas)
           \<and> (\<forall>i<length (angles plan).
                 str_in ([CHR 0x0A] @ ''Angle: '' @ angle (datas ! i) @ [CHR 0x0A] @ ''Facts:'')
                   (build_report_prompt plan datas))
           \<and> Synthesis (build_report_prompt plan datas) \<in> set (snd (deep_research env user_input))
           \<and> fst (deep_research env user_input) =
               (case synthesis_agent env (build_report_prompt plan datas) of
                  Inl e \<Rightarrow> Inr (''Error synthesizing report: '' @ message e)
                | Inr r \<Rightarrow> Inr (markdown_content r)))"
    by (intro exI[of _ datas] conjI) (fact g1 l each c1 c2 s1 s2)+
qed

text \<open>
  C4 (amended). If the planning stage raises, the whole response is the text
  "Error generating plan: " followed by the message of the exception, and the run ends
  there: the planning call is the only call made. If the synthesis call raises, the
  whole response is "Error synthesizing report: " followed by the message of the
  exception, instead of the report.
\<close>

theorem plan_or_synthesis_failure_surfaced:
  "(planning_agent env user_input = Inl e
      \<longrightarrow> deep_research env user_input
            = (Inr (''Error generating plan: '' @ message e), [Planning user_input]))
   \<and> (Synthesis p \<in> set (snd (deep_research env user_input)) \<and> synthesis_agent env p = Inl e'
      \<longrightarrow> fst (deep_research env user_input)
            = Inr (''Error synthesizing report: '' @ message e'))"
proof (intro conjI impI)
  assume "planning_agent env user_input = Inl e"
  then show "deep_research env user_input
            = (Inr (''Error generating plan: '' @ message e), [Planning user_input])"
    by (simp add: deep_research_def)
next
  assume h: "Synthesis p \<in> set (snd (deep_research env user_input)) \<and> synthesis_agent env p = Inl e'"
  show "fst (deep_research env user_input) = Inr (''Error synthesizing report: '' @ message e')"
  proof (cases "planning_agent env user_input")
    case (Inl e0)
    then have "snd (deep_research env user_input) = [Planning user_input]"
      by (simp add: deep_research_def)
    with h show ?thesis by simp
  next
    case (Inr plan0)
    let ?plan = "ensure_swot_angle_if_applicable plan0"
    from gather_process_angle[of env ?plan "angles ?plan"] obtain datas where
      g: "fst (gather (map (process_angle env ?plan) (angles ?plan))) = Inr datas" by auto
    from h have "p = build_report_prompt ?plan datas"
      using deep_research_synthesis_call[OF Inr g] by blast
    with h show ?thesis
      unfolding deep_research_planned[OF Inr g] by simp
  qed
qed

text \<open>
  C4 as stated fails: when planning raises an exception whose message is "boom", the
  response is "Error generating plan: boom", not the message alone.
\<close>

theorem plan_failure_verbatim_counterexample:
  "planning_agent demo_env ''XYZ'' = Inl (Exception ''boom'')
   \<and> fst (deep_research demo_env ''XYZ'') = Inr ''Error generating plan: boom''
   \<and> fst (deep_research demo_env ''XYZ'') \<noteq> Inr (message (Exception ''boom''))"
  by (simp add: deep_research_def demo_env_def)

lemma list_ex_extraction:
  assumes "list_ex (\<lambda>c. case c of Extraction q \<Rightarrow> P q | _ \<Rightarrow> False) cs"
  shows "\<exists>q. Extraction q \<in> set cs \<and> P q"
proof -
  from assms obtain c where c: "c \<in> set cs"
    and h: "case c of Extraction q \<Rightarrow> P q | _ \<Rightarrow> False"
    by (auto simp: list_ex_iff)
  show ?thesis
  proof (cases c)
    case (Extraction q)
    with c h show ?thesis by auto
  qed (use h in simp_all)
qed

lemma tesla_planned: "planning_agent demo_env ''TSLA'' = Inr tesla_plan"
  by (simp add: demo_env_def)

lemma tesla_angles:
  "angles (ensure_swot_angle_if_applicable tesla_plan)
     = [''recent performance'', ''market positioning'', ''guidance'', ''SWOT analysis'']"
  by code_simp

lemma swot_extraction_refused:
  "list_ex (\<lambda>c. case c of
                  Extraction q \<Rightarrow> extraction_agent demo_env q = Inl (Exception ''model refused'')
                | _ \<Rightarrow> False)
     (snd (process_angle demo_env (ensure_swot_angle_if_applicable tesla_plan) ''SWOT analysis''))"
  by code_simp

lemma performance_extraction_found:
  "list_ex (\<lambda>c. case c of
                  Extraction q \<Rightarrow> extraction_agent demo_env q
                     = Inr \<lparr>angle = ''found'', key_facts = [''fact''], claims = [],
                            citations = [''https://a.example'']\<rparr>
                | _ \<Rightarrow> False)
     (snd (process_angle demo_env (ensure_swot_angle_if_applicable tesla_plan) ''recent performance''))"
  by code_simp

lemma positioning_extraction_found:
  "list_ex (\<lambda>c. case c of
                  Extraction q \<Rightarrow> extraction_agent demo_env q
                     = Inr \<lparr>angle = ''found'', key_facts = [''fact''], claims = [], citations = [''https://a.example'']\<rparr>
                | _ \<Rightarrow> False)
     (snd (process_angle demo_env (ensure_swot_angle_if_applicable tesla_plan) ''market positioning''))"
  by code_simp

lemma guidance_extraction_found:
  "list_ex (\<lambda>c. case c of
                  Extraction q \<Rightarrow> extraction_agent demo_env q
                     = Inr \<lparr>angle = ''found'', key_facts = [''fact''], claims = [], citations = [''https://a.example'']\<rparr>
                | _ \<Rightarrow> False)
     (snd (process_angle demo_env (ensure_swot_angle_if_applicable tesla_plan) ''guidance''))"
  by code_simp

lemma tesla_report_prompt:
  "build_report_prompt (ensure_swot_angle_if_applicable tesla_plan)
     [\<lparr>angle = ''found'', key_facts = [''fact''], claims = [], citations = [''https://a.example'']\<rparr>,
      \<lparr>angle = ''found'', key_facts = [''fact''], claims = [], citations = [''https://a.example'']\<rparr>,
      \<lparr>angle = ''found'', key_facts = [''fact''], claims = [], citations = [''https://a.example'']\<rparr>,
      \<lparr>angle = ''SWOT analysis'', key_facts = [], claims = [], citations = []\<rparr>]
   = ''Topic: Tesla\<newline>Context: electric vehicles\<newline>\<newline>Collected Data:\<newline>\<newline>Angle: found\<newline>Facts:\<newline>- fact\<newline>Claims:\<newline>\<newline>Citations:\<newline>- https://a.example\<newline>\<newline>Angle: found\<newline>Facts:\<newline>- fact\<newline>Claims:\<newline>\<newline>Citations:\<newline>- https://a.example\<newline>\<newline>Angle: found\<newline>Facts:\<newline>- fact\<newline>Claims:\<newline>\<newline>Citations:\<newline>- https://a.example\<newline>\<newline>Angle: SWOT analysis\<newline>Facts:\<newline>\<newline>Claims:\<newline>\<newline>Citations:\<newline>\<newline>''"
  by code_simp

lemma list_of_four:
  "length xs = 4 \<Longrightarrow> xs = [xs ! 0, xs ! 1, xs ! 2, xs ! 3]"
  by (cases xs; simp; cases "tl xs"; simp; cases "tl (tl xs)"; simp; cases "tl (tl (tl xs))"; simp)

text \<open>
  C3 on the ticker "TSLA": of the four planned angles the extraction of "SWOT analysis"
  raises, its entry is the placeholder, the other three entries are what the extraction
  returned, and the synthesis is called on the prompt that lists the four entries, the
  last with no fact, claim or citation.
\<close>

theorem failed_extraction_gives_placeholder_witness:
  "planning_agent demo_env ''TSLA'' = Inr tesla_plan
   \<and> angles (ensure_swot_angle_if_applicable tesla_plan)
       = [''recent performance'', ''market positioning'', ''guidance'', ''SWOT analysis'']
   \<and> (\<exists>p. Extraction p \<in> set (snd (process_angle demo_env
                (ensure_swot_angle_if_applicable tesla_plan) ''SWOT analysis''))
          \<and> extraction_agent demo_env p = Inl (Exception ''model refused''))
   \<and> fst (process_angle demo_env (ensure_swot_angle_if_applicable tesla_plan) ''SWOT analysis'')
       = Inr \<lparr>angle = ''SWOT analysis'', key_facts = [], claims = [], citations = []\<rparr>
   \<and> fst (gather (map (process_angle demo_env (ensure_swot_angle_if_applicable tesla_plan))
                (angles (ensure_swot_angle_if_applicable tesla_plan))))
       = Inr [\<lparr>angle = ''found'', key_facts = [''fact''], claims = [], citations = [''https://a.example'']\<rparr>,
              \<lparr>angle = ''found'', key_facts = [''fact''], claims = [], citations = [''https://a.example'']\<rparr>,
              \<lparr>angle = ''found'', key_facts = [''fact''], claims = [], citations = [''https://a.example'']\<rparr>,
              \<lparr>angle = ''SWOT analysis'', key_facts = [], claims = [], citations = []\<rparr>]
   \<and> Synthesis ''Topic: Tesla\<newline>Context: electric vehicles\<newline>\<newline>Collected Data:\<newline>\<newline>Angle: found\<newline>Facts:\<newline>- fact\<newline>Claims:\<newline>\<newline>Citations:\<newline>- https://a.example\<newline>\<newline>Angle: found\<newline>Facts:\<newline>- fact\<newline>Claims:\<newline>\<newline>Citations:\<newline>- https://a.example\<newline>\<newline>Angle: found\<newline>Facts:\<newline>- fact\<newline>Claims:\<newline>\<newline>Citations:\<newline>- https://a.example\<newline>\<newline>Angle: SWOT analysis\<newline>Facts:\<newline>\<newline>Claims:\<newline>\<newline>Citations:\<newline>\<newline>''
       \<in> set (snd (deep_research demo_env ''TSLA''))
   \<and> str_in ''\<newline>Angle: SWOT analysis\<newline>Facts:''
        ''Topic: Tesla\<newline>Context: electric vehicles\<newline>\<newline>Collected Data:\<newline>\<newline>Angle: found\<newline>Facts:\<newline>- fact\<newline>Claims:\<newline>\<newline>Citations:\<newline>- https://a.example\<newline>\<newline>Angle: found\<newline>Facts:\<newline>- fact\<newline>Claims:\<newline>\<newline>Citations:\<newline>- https://a.example\<newline>\<newline>Angle: found\<newline>Facts:\<newline>- fact\<newline>Claims:\<newline>\<newline>Citations:\<newline>- https://a.example\<newline>\<newline>Angle: SWOT analysis\<newline>Facts:\<newline>\<newline>Claims:\<newline>\<newline>Citations:\<newline>\<newline>''
   \<and> fst (deep_research demo_env ''TSLA'') = Inr ''# Report''"
proof -
  let ?plan = "ensure_swot_angle_if_applicable tesla_plan"
  from list_ex_extraction[OF swot_extraction_refused] obtain p where
    p: "Extraction p \<in> set (snd (process_angle demo_env ?plan ''SWOT analysis''))"
       "extraction_agent demo_env p = Inl (Exception ''model refused'')"
    by blast
  from list_ex_extraction[OF performance_extraction_found] obtain q0 where
    q0: "Extraction q0 \<in> set (snd (process_angle demo_env ?plan ''recent performance''))"
       "extraction_agent demo_env q0 = Inr \<lparr>angle = ''found'', key_facts = [''fact''], claims = [], citations = [''https://a.example'']\<rparr>"
    by blast
  from list_ex_extraction[OF positioning_extraction_found] obtain q1 where
    q1: "Extraction q1 \<in> set (snd (process_angle demo_env ?plan ''market positioning''))"
       "extraction_agent demo_env q1 = Inr \<lparr>angle = ''found'', key_facts = [''fact''], claims = [], citations = [''https://a.example'']\<rparr>"
    by blast
  from list_ex_extraction[OF guidance_extraction_found] obtain q2 where
    q2: "Extraction q2 \<in> set (snd (process_angle demo_env ?plan ''guidance''))"
       "extraction_agent demo_env q2 = Inr \<lparr>angle = ''found'', key_facts = [''fact''], claims = [], citations = [''https://a.example'']\<rparr>"
    by blast
  note inst = failed_extraction_gives_placeholder[of p demo_env ?plan "''SWOT analysis''"
      "Exception ''model refused''" "''TSLA''" tesla_plan]
  from inst p have one: "fst (process_angle demo_env ?plan ''SWOT analysis'') = Inr \<lparr>angle = ''SWOT analysis'', key_facts = [], claims = [], citations = []\<rparr>"
    by blast
  from inst tesla_planned obtain datas where
    g: "fst (gather (map (process_angle demo_env ?plan) (angles ?plan))) = Inr datas"
    and l: "length datas = length (angles ?plan)"
    and each: "\<forall>i<length (angles ?plan). \<forall>q.
                 Extraction q \<in> set (snd (process_angle demo_env ?plan (angles ?plan ! i)))
                 \<longrightarrow> datas ! i =
                       (case extraction_agent demo_env q of
                          Inl e \<Rightarrow> \<lparr>angle = angles ?plan ! i, key_facts = [], claims = [],
                                     citations = []\<rparr>
                        | Inr d \<Rightarrow> d)"
    and c2: "\<forall>i<length (angles ?plan).
                 str_in ([CHR 0x0A] @ ''Angle: '' @ angle (datas ! i) @ [CHR 0x0A] @ ''Facts:'')
                   (build_report_prompt ?plan datas)"
    and s: "Synthesis (build_report_prompt ?plan datas) \<in> set (snd (deep_research demo_env ''TSLA''))"
    and r: "fst (deep_research demo_env ''TSLA'') =
               (case synthesis_agent demo_env (build_report_prompt ?plan datas) of
                  Inl e \<Rightarrow> Inr (''Error synthesizing report: '' @ message e)
                | Inr r \<Rightarrow> Inr (markdown_content r))"
    by blast
  from l have l4: "length datas = 4" by (simp add: tesla_angles)
  from each[rule_format, of 3 p] p have d3: "datas ! 3 = \<lparr>angle = ''SWOT analysis'', key_facts = [], claims = [], citations = []\<rparr>"
    by (simp add: tesla_angles)
  from each[rule_format, of 0 q0] q0 have d0: "datas ! 0 = \<lparr>angle = ''found'', key_facts = [''fact''], claims = [], citations = [''https://a.example'']\<rparr>"
    by (simp add: tesla_angles)
  from each[rule_format, of 1 q1] q1 have d1: "datas ! 1 = \<lparr>angle = ''found'', key_facts = [''fact''], claims = [], citations = [''https://a.example'']\<rparr>"
    by (simp add: tesla_angles)
  from each[rule_format, of 2 q2] q2 have d2: "datas ! 2 = \<lparr>angle = ''found'', key_facts = [''fact''], claims = [], citations = [''https://a.example'']\<rparr>"
    by (simp add: tesla_angles)
  from list_of_four[OF l4] d0 d1 d2 d3 have ds: "datas = [\<lparr>angle = ''found'', key_facts = [''fact''], claims = [], citations = [''https://a.example'']\<rparr>,
      \<lparr>angle = ''found'', key_facts = [''fact''], claims = [], citations = [''https://a.example'']\<rparr>,
      \<lparr>angle = ''found'', key_facts = [''fact''], claims = [], citations = [''https://a.example'']\<rparr>,
      \<lparr>angle = ''SWOT analysis'', key_facts = [], claims = [], citations = []\<rparr>]" by simp
  from g ds have g': "fst (gather (map (process_angle demo_env ?plan) (angles ?plan)))
       = Inr [\<lparr>angle = ''found'', key_facts = [''fact''], claims = [], citations = [''https://a.example'']\<rparr>,
              \<lparr>angle = ''found'', key_facts = [''fact''], claims = [], citations = [''https://a.example'']\<rparr>,
              \<lparr>angle = ''found'', key_facts = [''fact''], claims = [], citations = [''https://a.example'']\<rparr>,
              \<lparr>angle = ''SWOT analysis'', key_facts = [], claims = [], citations = []\<rparr>]" by simp
  from tesla_report_prompt ds have pr: "build_report_prompt ?plan datas = ''Topic: Tesla\<newline>Context: electric vehicles\<newline>\<newline>Collected Data:\<newline>\<newline>Angle: found\<newline>Facts:\<newline>- fact\<newline>Claims:\<newline>\<newline>Citations:\<newline>- https://a.example\<newline>\<newline>Angle: found\<newline>Facts:\<newline>- fact\<newline>Claims:\<newline>\<newline>Citations:\<newline>- https://a.example\<newline>\<newline>Angle: found\<newline>Facts:\<newline>- fact\<newline>Claims:\<newline>\<newline>Citations:\<newline>- https://a.example\<newline>\<newline>Angle: SWOT analysis\<newline>Facts:\<newline>\<newline>Claims:\<newline>\<newline>Citations:\<newline>\<newline>''" by simp
  from s pr have s': "Synthesis ''Topic: Tesla\<newline>Context: electric vehicles\<newline>\<newline>Collected Data:\<newline>\<newline>Angle: found\<newline>Facts:\<newline>- fact\<newline>Claims:\<newline>\<newline>Citations:\<newline>- https://a.example\<newline>\<newline>Angle: found\<newline>Facts:\<newline>- fact\<newline>Claims:\<newline>\<newline>Citations:\<newline>- https://a.example\<newline>\<newline>Angle: found\<newline>Facts:\<newline>- fact\<newline>Claims:\<newline>\<newline>Citations:\<newline>- https://a.example\<newline>\<newline>Angle: SWOT analysis\<newline>Facts:\<newline>\<newline>Claims:\<newline>\<newline>Citations:\<newline>\<newline>'' \<in> set (snd (deep_research demo_env ''TSLA''))" by simp
  from c2[rule_format, of 3] d3 pr have m: "str_in ''\<newline>Angle: SWOT analysis\<newline>Facts:'' ''Topic: Tesla\<newline>Context: electric vehicles\<newline>\<newline>Collected Data:\<newline>\<newline>Angle: found\<newline>Facts:\<newline>- fact\<newline>Claims:\<newline>\<newline>Citations:\<newline>- https://a.example\<newline>\<newline>Angle: found\<newline>Facts:\<newline>- fact\<newline>Claims:\<newline>\<newline>Citations:\<newline>- https://a.example\<newline>\<newline>Angle: found\<newline>Facts:\<newline>- fact\<newline>Claims:\<newline>\<newline>Citations:\<newline>- https://a.example\<newline>\<newline>Angle: SWOT analysis\<newline>Facts:\<newline>\<newline>Claims:\<newline>\<newline>Citations:\<newline>\<newline>''"
    by (simp add: tesla_angles)
  from r have r': "fst (deep_research demo_env ''TSLA'') = Inr ''# Report''"
    by (simp add: demo_env_def)
  from tesla_planned tesla_angles p one g' s' m r' show ?thesis by blast
qed

text \<open>
  The amended C4 at an input on which planning raises, and with a synthesis that raises.
\<close>

theorem plan_or_synthesis_failure_surfaced_witness:
  "planning_agent demo_env ''XYZ'' = Inl (Exception ''boom'')
   \<and> deep_research demo_env ''XYZ'' = (Inr ''Error generating plan: boom'', [Planning ''XYZ''])
   \<and> (\<exists>p. Synthesis p \<in> set (snd (deep_research quota_env ''TSLA''))
          \<and> synthesis_agent quota_env p = Inl (Exception ''quota exceeded'')
          \<and> fst (deep_research quota_env ''TSLA'') = Inr ''Error synthesizing report: quota exceeded'')"
proof -
  have a: "planning_agent demo_env ''XYZ'' = Inl (Exception ''boom'')"
    by (simp add: demo_env_def)
  from plan_or_synthesis_failure_surfaced[of demo_env "''XYZ''" "Exception ''boom''"] a
  have 1: "deep_research demo_env ''XYZ'' = (Inr ''Error generating plan: boom'', [Planning ''XYZ''])"
    by simp
  let ?plan = "ensure_swot_angle_if_applicable tesla_plan"
  have pl: "planning_agent quota_env ''TSLA'' = Inr tesla_plan"
    by (simp add: quota_env_def demo_env_def)
  from gather_process_angle[of quota_env ?plan "angles ?plan"] obtain datas where
    g: "fst (gather (map (process_angle quota_env ?plan) (angles ?plan))) = Inr datas" by auto
  let ?p = "build_report_prompt ?plan datas"
  have s: "Synthesis ?p \<in> set (snd (deep_research quota_env ''TSLA''))"
    unfolding deep_research_planned[OF pl g] by simp
  have q: "synthesis_agent quota_env ?p = Inl (Exception ''quota exceeded'')"
    by (simp add: quota_env_def)
  from plan_or_synthesis_failure_surfaced[of quota_env "''TSLA''" _ ?p "Exception ''quota exceeded''"] s q
  have 2: "fst (deep_research quota_env ''TSLA'') = Inr ''Error synthesizing report: quota exceeded''"
    by simp
  from a 1 s q 2 show ?thesis by blast
qed

end
